theory Spec2Isabelle
  imports Complex_Main "HOL-Library.Word"
begin

section \<open>SceneManager: texture registry, uniform uploads and the fixed scene\<close>

text \<open>
  A shallow embedding of \<^verbatim>\<open>scenemanager.cpp\<close> and \<^verbatim>\<open>SceneManager.h\<close>.
  The class is a record; every method is a function from the object to either a fault
  (the C++ program has undefined behaviour there) or the updated object. Calls into the
  libraries the class wraps (stb_image, OpenGL, GLM, ShaderManager, ShapeMeshes,
  \<^verbatim>\<open>std::cout\<close>) are not in the sources: each such call is appended to a log carried by
  the object, with its arguments, and the two values the libraries hand back
  (the decoded image and the texture name) come from an environment.
\<close>

subsection \<open>Values handed to GLM and to the shader\<close>

text \<open>
  A \<^verbatim>\<open>float\<close> is represented by the number its literal denotes; the class performs no
  arithmetic on floats itself, it only passes them on. The GLM constructors and the
  matrix product are kept uninterpreted, as constructors of a term type, so that an
  uploaded matrix records exactly which GLM calls built it and in which order.
\<close>

type_synonym float = real

datatype vec2 = vec2 float float
datatype vec3 = vec3 float float float

datatype angle = glm_radians float

datatype mat4 =
    glm_translate vec3
  | glm_rotate angle vec3
  | glm_scale vec3
  | mat4_mul mat4 mat4

text \<open>\<^verbatim>\<open>glm::vec3(x)\<close> and \<^verbatim>\<open>glm::vec2(x)\<close> with one argument fill every component.\<close>

definition vec3_splat :: "float \<Rightarrow> vec3" where
  "vec3_splat x = vec3 x x x"

definition vec2_splat :: "float \<Rightarrow> vec2" where
  "vec2_splat x = vec2 x x"

text \<open>The factors of a product, left to right, and the number of multiplications.\<close>

fun factors :: "mat4 \<Rightarrow> mat4 list" where
  "factors (mat4_mul a b) = factors a @ factors b"
| "factors m = [m]"

fun multiplications :: "mat4 \<Rightarrow> nat" where
  "multiplications (mat4_mul a b) = multiplications a + multiplications b + 1"
| "multiplications m = 0"

subsection \<open>The log of library calls\<close>

type_synonym GLuint = "32 word"

datatype gl_const =
    GL_TEXTURE_2D | GL_TEXTURE_WRAP_S | GL_TEXTURE_WRAP_T
  | GL_TEXTURE_MIN_FILTER | GL_TEXTURE_MAG_FILTER
  | GL_REPEAT | GL_LINEAR_MIPMAP_LINEAR | GL_LINEAR
  | GL_RGB8 | GL_RGBA8 | GL_RGB | GL_RGBA | GL_UNSIGNED_BYTE

text \<open>
  One constructor per library call made by \<^verbatim>\<open>scenemanager.cpp\<close>. The three
  \<^verbatim>\<open>cout_\<close> events are the three messages of \<^verbatim>\<open>CreateGLTexture\<close>.
  \<^verbatim>\<open>glGenTextures\<close> carries the name it wrote, \<^verbatim>\<open>glActiveTexture i\<close> stands for
  \<^verbatim>\<open>glActiveTexture(GL_TEXTURE0 + i)\<close>. \<^verbatim>\<open>call_SetTransformations\<close> and
  \<^verbatim>\<open>call_SetShaderTexture\<close> mark the entry of these two methods with their
  arguments. \<^verbatim>\<open>SetTextureUVScale\<close> is declared in the header but its body is not in
  the sources: a call of it is logged with its arguments and nothing else is said
  about it.
\<close>

datatype event =
    stbi_set_flip_vertically_on_load bool
  | stbi_load string
  | stbi_image_free
  | cout_could_not_load string
  | cout_loaded string int int int
  | cout_unsupported int string
  | glGenTextures GLuint
  | glBindTexture gl_const GLuint
  | glTexParameteri gl_const gl_const gl_const
  | glTexImage2D gl_const gl_const int int gl_const gl_const
  | glGenerateMipmap gl_const
  | glActiveTexture int
  | glDeleteTextures GLuint
  | setMat4Value string mat4
  | setIntValue string int
  | setBoolValue string bool
  | setFloatValue string float
  | setSampler2DValue string int
  | setVec2Value string vec2
  | setVec3Value string vec3
  | LoadPlaneMesh | LoadBoxMesh | LoadCylinderMesh
  | DrawPlaneMesh | DrawBoxMesh | DrawCylinderMesh
  | call_SetTransformations vec3 float float float vec3
  | call_SetShaderTexture string float
  | SetTextureUVScale float float

subsection \<open>The environment\<close>

text \<open>
  What \<^verbatim>\<open>stbi_load\<close> finds for a file name (\<open>None\<close>: the null pointer) and the name
  \<^verbatim>\<open>glGenTextures\<close> writes, which may depend on every call made so far.
\<close>

record image =
  width :: int
  height :: int
  colorChannels :: int

record environment =
  image_on_disk :: "string \<Rightarrow> image option"
  fresh_texture :: "event list \<Rightarrow> GLuint"

subsection \<open>The class\<close>

record TEXTURE_INFO =
  tag :: string
  ID :: GLuint

datatype ShaderManager_ptr = nullptr | ShaderManager_at nat

text \<open>
  \<^verbatim>\<open>m_basicMeshes\<close> is set by the constructor to a fresh object and is never null
  while the object lives; \<^verbatim>\<open>m_objectMaterials\<close> is never touched. Both are left out.
  \<open>calls\<close> is the log.
\<close>

record SceneManager =
  m_pShaderManager :: ShaderManager_ptr
  m_loadedTextures :: int
  m_textureIDs :: "TEXTURE_INFO list"
  calls :: "event list"

text \<open>Undefined behaviour of the C++ program, as a value.\<close>

datatype fault = OutOfBounds int | NullDereference

definition emit :: "event list \<Rightarrow> SceneManager \<Rightarrow> SceneManager" where
  "emit es w = w\<lparr>calls := calls w @ es\<rparr>"

definition ext :: "event \<Rightarrow> SceneManager \<Rightarrow> fault + SceneManager" where
  "ext e w = Inr (emit [e] w)"

text \<open>A statement sequence: the first fault ends it.\<close>

fun run :: "('s \<Rightarrow> fault + 's) list \<Rightarrow> 's \<Rightarrow> fault + 's" where
  "run [] w = Inr w"
| "run (f # fs) w = (case f w of Inl e \<Rightarrow> Inl e | Inr w' \<Rightarrow> run fs w')"

text \<open>A call whose returned value the caller drops.\<close>

definition discard :: "('s \<Rightarrow> fault + ('a \<times> 's)) \<Rightarrow> 's \<Rightarrow> fault + 's" where
  "discard f w = (case f w of Inl e \<Rightarrow> Inl e | Inr (r, w') \<Rightarrow> Inr w')"

subsection \<open>Constructor\<close>

text \<open>The loop assigns each of the sixteen entries; \<^verbatim>\<open>ID = -1\<close> wraps to \<open>0xFFFFFFFF\<close>.\<close>

definition empty_slot :: TEXTURE_INFO where
  "empty_slot = \<lparr>tag = ''/0'', ID = - 1\<rparr>"

definition SceneManager_ctor :: "ShaderManager_ptr \<Rightarrow> SceneManager" where
  "SceneManager_ctor pShaderManager =
     \<lparr>m_pShaderManager = pShaderManager,
      m_loadedTextures = 0,
      m_textureIDs = replicate 16 empty_slot,
      calls = []\<rparr>"

subsection \<open>CreateGLTexture\<close>

text \<open>
  The store \<^verbatim>\<open>m_textureIDs[m_loadedTextures]\<close> has no bounds check in the source: with an
  index outside \<open>0..15\<close> it writes past the array, which is a fault here.
\<close>

definition CreateGLTexture_store :: "GLuint \<Rightarrow> string \<Rightarrow> SceneManager \<Rightarrow> fault + (bool \<times> SceneManager)" where
  "CreateGLTexture_store textureID tg w =
     (let w' = emit [glGenerateMipmap GL_TEXTURE_2D, stbi_image_free, glBindTexture GL_TEXTURE_2D 0] w;
          n = m_loadedTextures w'
      in
      if 0 \<le> n \<and> n < 16 then
        Inr (True,
             w'\<lparr>m_textureIDs :=
                  (m_textureIDs w')[nat n := (m_textureIDs w' ! nat n)\<lparr>ID := textureID, tag := tg\<rparr>],
                m_loadedTextures := n + 1\<rparr>)
      else Inl (OutOfBounds n))"

definition CreateGLTexture ::
  "environment \<Rightarrow> string \<Rightarrow> string \<Rightarrow> SceneManager \<Rightarrow> fault + (bool \<times> SceneManager)" where
  "CreateGLTexture env filename tg w =
     (let w1 = emit [stbi_set_flip_vertically_on_load True, stbi_load filename] w in
      case image_on_disk env filename of
        None \<Rightarrow> Inr (False, emit [cout_could_not_load filename] w1)
      | Some img \<Rightarrow>
          let w2 = emit [cout_loaded filename (width img) (height img) (colorChannels img)] w1;
              textureID = fresh_texture env (calls w2);
              w3 = emit [glGenTextures textureID,
                         glBindTexture GL_TEXTURE_2D textureID,
                         glTexParameteri GL_TEXTURE_2D GL_TEXTURE_WRAP_S GL_REPEAT,
                         glTexParameteri GL_TEXTURE_2D GL_TEXTURE_WRAP_T GL_REPEAT,
                         glTexParameteri GL_TEXTURE_2D GL_TEXTURE_MIN_FILTER GL_LINEAR_MIPMAP_LINEAR,
                         glTexParameteri GL_TEXTURE_2D GL_TEXTURE_MAG_FILTER GL_LINEAR] w2
          in
          if colorChannels img = 3 then
            CreateGLTexture_store textureID tg
              (emit [glTexImage2D GL_TEXTURE_2D GL_RGB8 (width img) (height img)
                       GL_RGB GL_UNSIGNED_BYTE] w3)
          else if colorChannels img = 4 then
            CreateGLTexture_store textureID tg
              (emit [glTexImage2D GL_TEXTURE_2D GL_RGBA8 (width img) (height img)
                       GL_RGBA GL_UNSIGNED_BYTE] w3)
          else
            Inr (False, emit [cout_unsupported (colorChannels img) filename, stbi_image_free] w3))"

subsection \<open>BindGLTextures, DestroyGLTextures, FindTextureSlot\<close>

text \<open>
  The three loops run \<^verbatim>\<open>i\<close> from 0 while \<^verbatim>\<open>i < m_loadedTextures\<close>; reading entry
  \<^verbatim>\<open>i\<close> outside \<open>0..15\<close> is a fault.
\<close>

function BindGLTextures_from :: "int \<Rightarrow> SceneManager \<Rightarrow> fault + SceneManager" where
  "BindGLTextures_from i w =
     (if i < m_loadedTextures w then
        if 0 \<le> i \<and> i < 16 then
          BindGLTextures_from (i + 1)
            (emit [glActiveTexture i, glBindTexture GL_TEXTURE_2D (ID (m_textureIDs w ! nat i))] w)
        else Inl (OutOfBounds i)
      else Inr w)"
  by pat_completeness auto
termination
  by (relation "measure (\<lambda>(i, w). nat (m_loadedTextures w - i))") (auto simp: emit_def)

definition BindGLTextures :: "SceneManager \<Rightarrow> fault + SceneManager" where
  "BindGLTextures w = BindGLTextures_from 0 w"

function DestroyGLTextures_from :: "int \<Rightarrow> SceneManager \<Rightarrow> fault + SceneManager" where
  "DestroyGLTextures_from i w =
     (if i < m_loadedTextures w then
        if 0 \<le> i \<and> i < 16 then
          if ID (m_textureIDs w ! nat i) \<noteq> - 1 then
            DestroyGLTextures_from (i + 1)
              ((emit [glDeleteTextures (ID (m_textureIDs w ! nat i))] w)
                 \<lparr>m_textureIDs :=
                    (m_textureIDs w)[nat i := (m_textureIDs w ! nat i)\<lparr>ID := - 1, tag := ''/0''\<rparr>]\<rparr>)
          else DestroyGLTextures_from (i + 1) w
        else Inl (OutOfBounds i)
      else Inr w)"
  by pat_completeness auto
termination
  by (relation "measure (\<lambda>(i, w). nat (m_loadedTextures w - i))") (auto simp: emit_def)

definition DestroyGLTextures :: "SceneManager \<Rightarrow> fault + SceneManager" where
  "DestroyGLTextures w =
     (case DestroyGLTextures_from 0 w of
        Inl e \<Rightarrow> Inl e
      | Inr w' \<Rightarrow> Inr (w'\<lparr>m_loadedTextures := 0\<rparr>))"

function FindTextureSlot_from ::
  "int \<Rightarrow> string \<Rightarrow> SceneManager \<Rightarrow> fault + (int \<times> SceneManager)" where
  "FindTextureSlot_from i tg w =
     (if i < m_loadedTextures w then
        if 0 \<le> i \<and> i < 16 then
          if tag (m_textureIDs w ! nat i) = tg then Inr (i, w)
          else FindTextureSlot_from (i + 1) tg w
        else Inl (OutOfBounds i)
      else Inr (- 1, w))"
  by pat_completeness auto
termination
  by (relation "measure (\<lambda>(i, tg, w). nat (m_loadedTextures w - i))") auto

definition FindTextureSlot :: "string \<Rightarrow> SceneManager \<Rightarrow> fault + (int \<times> SceneManager)" where
  "FindTextureSlot tg w = FindTextureSlot_from 0 tg w"

subsection \<open>Uniform names\<close>

definition g_ModelName :: string where "g_ModelName = ''model''"
definition g_TextureValueName :: string where "g_TextureValueName = ''objectTexture''"
definition g_UseTextureName :: string where "g_UseTextureName = ''bUseTexture''"
definition g_UseLightingName :: string where "g_UseLightingName = ''bUseLighting''"

subsection \<open>SetTransformations, SetShaderTexture, SetupSceneLights\<close>

text \<open>The product is written as C++ parses it: \<^verbatim>\<open>*\<close> associates to the left.\<close>

definition model_matrix :: "vec3 \<Rightarrow> float \<Rightarrow> float \<Rightarrow> float \<Rightarrow> vec3 \<Rightarrow> mat4" where
  "model_matrix scaleXYZ XrotationDegrees YrotationDegrees ZrotationDegrees positionXYZ =
     mat4_mul
       (mat4_mul
          (mat4_mul
             (mat4_mul
                (glm_translate positionXYZ)
                (glm_rotate (glm_radians ZrotationDegrees) (vec3 0 0 1)))
             (glm_rotate (glm_radians YrotationDegrees) (vec3 0 1 0)))
          (glm_rotate (glm_radians XrotationDegrees) (vec3 1 0 0)))
       (glm_scale scaleXYZ)"

definition SetTransformations ::
  "vec3 \<Rightarrow> float \<Rightarrow> float \<Rightarrow> float \<Rightarrow> vec3 \<Rightarrow> SceneManager \<Rightarrow> fault + SceneManager" where
  "SetTransformations scaleXYZ XrotationDegrees YrotationDegrees ZrotationDegrees positionXYZ w =
     (let w0 = emit [call_SetTransformations scaleXYZ XrotationDegrees YrotationDegrees
                       ZrotationDegrees positionXYZ] w;
          model = model_matrix scaleXYZ XrotationDegrees YrotationDegrees ZrotationDegrees positionXYZ
      in
      if m_pShaderManager w0 \<noteq> nullptr then Inr (emit [setMat4Value g_ModelName model] w0)
      else Inr w0)"

text \<open>\<^verbatim>\<open>setIntValue(g_UseTextureName, true)\<close> converts \<^verbatim>\<open>true\<close> to the int 1.\<close>

definition SetShaderTexture :: "string \<Rightarrow> float \<Rightarrow> SceneManager \<Rightarrow> fault + SceneManager" where
  "SetShaderTexture tg scale w =
     (let w0 = emit [call_SetShaderTexture tg scale] w in
      if m_pShaderManager w0 \<noteq> nullptr then
        case FindTextureSlot tg (emit [setIntValue g_UseTextureName 1] w0) of
          Inl e \<Rightarrow> Inl e
        | Inr (slot, w1) \<Rightarrow>
            Inr (emit [setSampler2DValue g_TextureValueName slot,
                       setVec2Value ''UVscale'' (vec2_splat scale)] w1)
      else Inr w0)"

text \<open>\<^verbatim>\<open>SetupSceneLights\<close> uses \<^verbatim>\<open>m_pShaderManager\<close> without a null check.\<close>

definition SetupSceneLights :: "SceneManager \<Rightarrow> fault + SceneManager" where
  "SetupSceneLights w =
     (if m_pShaderManager w = nullptr then Inl NullDereference
      else
        run [ext (setBoolValue g_UseLightingName True),
             ext (setVec3Value ''dirLight.direction'' (vec3 (- 0.5) (- 1.0) (- 0.3))),
             ext (setVec3Value ''dirLight.ambient'' (vec3_splat 0.1)),
             ext (setVec3Value ''dirLight.diffuse'' (vec3_splat 0.8)),
             ext (setVec3Value ''dirLight.specular'' (vec3_splat 1.0)),
             ext (setVec3Value ''pointLight.position'' (vec3 0.0 10.0 0.0)),
             ext (setVec3Value ''pointLight.ambient'' (vec3_splat 0.05)),
             ext (setVec3Value ''pointLight.diffuse'' (vec3_splat 0.5)),
             ext (setVec3Value ''pointLight.specular'' (vec3_splat 0.7)),
             ext (setFloatValue ''pointLight.constant'' 1.0),
             ext (setFloatValue ''pointLight.linear'' 0.09),
             ext (setFloatValue ''pointLight.quadratic'' 0.032)] w)"

subsection \<open>LoadSceneTextures, PrepareScene, RenderScene\<close>

definition LoadSceneTextures :: "environment \<Rightarrow> SceneManager \<Rightarrow> fault + SceneManager" where
  "LoadSceneTextures env =
     run [discard (CreateGLTexture env ''textures/wood.jpg'' ''wood''),
          discard (CreateGLTexture env ''textures/white_wood.jpg'' ''whiteWood''),
          discard (CreateGLTexture env ''textures/concrete.png'' ''concrete''),
          discard (CreateGLTexture env ''textures/green.png'' ''green''),
          discard (CreateGLTexture env ''textures/gray.png'' ''gray''),
          discard (CreateGLTexture env ''textures/black.png'' ''black''),
          BindGLTextures]"

definition PrepareScene :: "environment \<Rightarrow> SceneManager \<Rightarrow> fault + SceneManager" where
  "PrepareScene env =
     run [LoadSceneTextures env,
          ext LoadPlaneMesh,
          ext LoadBoxMesh,
          ext LoadCylinderMesh,
          SetupSceneLights]"

text \<open>\<^verbatim>\<open>SetShaderTexture("black")\<close> takes the header's default \<^verbatim>\<open>scale = 1.0f\<close>.\<close>

definition RenderScene :: "SceneManager \<Rightarrow> fault + SceneManager" where
  "RenderScene =
     (let rotX = 0.0; rotY = 0.0; rotZ = 0.0 in
      run [SetTransformations (vec3 50.0 1.0 50.0) rotX rotY rotZ (vec3 0.0 (- 0.5) 0.0),
           SetShaderTexture ''wood'' 10.0,
           ext DrawPlaneMesh,

           SetTransformations (vec3 10.0 4.0 4.0) rotX rotY rotZ (vec3 0.0 2.0 0.0),
           SetShaderTexture ''whiteWood'' 2.0,
           ext DrawBoxMesh,

           SetTransformations (vec3 11.0 0.3 5.0) rotX rotY rotZ (vec3 0.0 4.3 0.0),
           SetShaderTexture ''concrete'' 2.0,
           ext DrawBoxMesh,

           SetTransformations (vec3 1.05 0.06 0.7) 0 16 0 (vec3 (- 1.4) 2.49 (- 0.45)),
           SetShaderTexture ''black'' 1.0,
           ext (SetTextureUVScale 1.0 1.0),
           ext DrawBoxMesh,

           SetTransformations (vec3 1.05 0.75 0.06) (- 90) 16 0 (vec3 (- 1.4) 2.87 (- 0.05)),
           SetShaderTexture ''black'' 1.0,
           ext DrawBoxMesh,

           SetTransformations (vec3 0.13 0.45 0.13) 0 0 0 (vec3 0 2.57 (- 0.17)),
           SetShaderTexture ''gray'' 1.0,
           ext (SetTextureUVScale 1.0 1.0),
           ext DrawCylinderMesh,

           SetTransformations (vec3 0.15 0.04 0.15) 0 0 0 (vec3 0 2.81 (- 0.17)),
           SetShaderTexture ''black'' 1.0,
           ext DrawCylinderMesh,

           SetTransformations (vec3 0.7 1.1 0.35) 0 (- 13) 0 (vec3 1.5 2.92 0.7),
           SetShaderTexture ''green'' 1.0,
           ext (SetTextureUVScale 1.0 1.0),
           ext DrawBoxMesh])"

subsection \<open>Reading the log\<close>

fun is_draw :: "event \<Rightarrow> bool" where
  "is_draw DrawPlaneMesh = True"
| "is_draw DrawBoxMesh = True"
| "is_draw DrawCylinderMesh = True"
| "is_draw e = False"

fun is_texture_upload :: "event \<Rightarrow> bool" where
  "is_texture_upload (glTexImage2D target internal w h format ty) = True"
| "is_texture_upload e = False"

fun is_model_upload :: "event \<Rightarrow> bool" where
  "is_model_upload (setMat4Value name m) = (name = ''model'')"
| "is_model_upload e = False"

fun is_use_texture_upload :: "event \<Rightarrow> bool" where
  "is_use_texture_upload (setIntValue name v) = (name = ''bUseTexture'')"
| "is_use_texture_upload e = False"

fun is_sampler_upload :: "event \<Rightarrow> bool" where
  "is_sampler_upload (setSampler2DValue name slot) = (name = ''objectTexture'')"
| "is_sampler_upload e = False"

fun is_uvscale_upload :: "event \<Rightarrow> bool" where
  "is_uvscale_upload (setVec2Value name v) = (name = ''UVscale'')"
| "is_uvscale_upload e = False"

text \<open>The uniforms \<^verbatim>\<open>SetupSceneLights\<close> writes: the lighting switch and the two lights.\<close>

definition is_light_name :: "string \<Rightarrow> bool" where
  "is_light_name name = (take 9 name = ''dirLight.'' \<or> take 11 name = ''pointLight.'')"

fun is_lighting_upload :: "event \<Rightarrow> bool" where
  "is_lighting_upload (setBoolValue name b) = (name = ''bUseLighting'')"
| "is_lighting_upload (setVec3Value name v) = is_light_name name"
| "is_lighting_upload (setFloatValue name x) = is_light_name name"
| "is_lighting_upload e = False"

fun is_call_SetTransformations :: "event \<Rightarrow> bool" where
  "is_call_SetTransformations (call_SetTransformations s rx ry rz p) = True"
| "is_call_SetTransformations e = False"

fun is_call_SetShaderTexture :: "event \<Rightarrow> bool" where
  "is_call_SetShaderTexture (call_SetShaderTexture tg s) = True"
| "is_call_SetShaderTexture e = False"

text \<open>
  The events that describe the scene: which object is set up with which arguments and
  which mesh is drawn.
\<close>

fun is_scene_call :: "event \<Rightarrow> bool" where
  "is_scene_call (call_SetTransformations s rx ry rz p) = True"
| "is_scene_call (call_SetShaderTexture tg s) = True"
| "is_scene_call (SetTextureUVScale u v) = True"
| "is_scene_call e = is_draw e"

text \<open>
  \<open>per_draw P es seg\<close>: in the log \<open>es\<close>, every draw is preceded by a segment (the events
  since the previous draw, \<open>seg\<close> holding those already seen, newest first) that
  satisfies \<open>P\<close>.
\<close>

fun per_draw :: "(event list \<Rightarrow> bool) \<Rightarrow> event list \<Rightarrow> event list \<Rightarrow> bool" where
  "per_draw P [] seg = True"
| "per_draw P (e # es) seg =
     (if is_draw e then P (rev seg) \<and> per_draw P es [] else per_draw P es (e # seg))"

definition has_transform_and_texture_call :: "event list \<Rightarrow> bool" where
  "has_transform_and_texture_call seg =
     (list_ex is_call_SetTransformations seg \<and> list_ex is_call_SetShaderTexture seg)"

definition has_model_and_texture_uploads :: "event list \<Rightarrow> bool" where
  "has_model_and_texture_uploads seg =
     (list_ex is_model_upload seg \<and> list_ex is_use_texture_upload seg \<and>
      list_ex is_sampler_upload seg \<and> list_ex is_uvscale_upload seg)"

definition has_model_texture_and_lighting_uploads :: "event list \<Rightarrow> bool" where
  "has_model_texture_and_lighting_uploads seg =
     (has_model_and_texture_uploads seg \<and> list_ex is_lighting_upload seg)"

text \<open>What \<^verbatim>\<open>CreateGLTexture\<close> and \<^verbatim>\<open>BindGLTextures\<close> call: stb_image, OpenGL and \<^verbatim>\<open>std::cout\<close>.\<close>

fun is_texture_setup :: "event \<Rightarrow> bool" where
  "is_texture_setup (stbi_set_flip_vertically_on_load b) = True"
| "is_texture_setup (stbi_load filename) = True"
| "is_texture_setup stbi_image_free = True"
| "is_texture_setup (cout_could_not_load filename) = True"
| "is_texture_setup (cout_loaded filename w h c) = True"
| "is_texture_setup (cout_unsupported c filename) = True"
| "is_texture_setup (glGenTextures name) = True"
| "is_texture_setup (glBindTexture target name) = True"
| "is_texture_setup (glTexParameteri target pname param) = True"
| "is_texture_setup (glTexImage2D target internal w h format ty) = True"
| "is_texture_setup (glGenerateMipmap target) = True"
| "is_texture_setup (glActiveTexture i) = True"
| "is_texture_setup e = False"

text \<open>
  \<open>appends Q w w'\<close>: from \<open>w\<close> to \<open>w'\<close> the log grew by events that satisfy \<open>Q\<close> and the
  shader manager pointer stayed.
\<close>

definition appends :: "(event \<Rightarrow> bool) \<Rightarrow> SceneManager \<Rightarrow> SceneManager \<Rightarrow> bool" where
  "appends Q w w' =
     (m_pShaderManager w' = m_pShaderManager w \<and>
      (\<exists>es. calls w' = calls w @ es \<and> list_all Q es))"

text \<open>In a log, no texture upload comes after the first draw.\<close>

fun uploads_precede_draws :: "event list \<Rightarrow> bool" where
  "uploads_precede_draws [] = True"
| "uploads_precede_draws (e # es) =
     (if is_draw e then \<not> list_ex is_texture_upload es else uploads_precede_draws es)"

text \<open>The calls a method made: what it appended to the log.\<close>

definition issued :: "SceneManager \<Rightarrow> SceneManager \<Rightarrow> event list" where
  "issued w w' = drop (length (calls w)) (calls w')"

definition issued_by :: "(SceneManager \<Rightarrow> fault + SceneManager) \<Rightarrow> SceneManager \<Rightarrow> event list" where
  "issued_by f w = (case f w of Inl e \<Rightarrow> [] | Inr w' \<Rightarrow> issued w w')"

text \<open>The scene as the specification describes it: eight objects, in this order.\<close>

definition fixed_scene :: "event list" where
  "fixed_scene =
     [call_SetTransformations (vec3 50 1 50) 0 0 0 (vec3 0 (- 0.5) 0),
      call_SetShaderTexture ''wood'' 10, DrawPlaneMesh,
      call_SetTransformations (vec3 10 4 4) 0 0 0 (vec3 0 2 0),
      call_SetShaderTexture ''whiteWood'' 2, DrawBoxMesh,
      call_SetTransformations (vec3 11 0.3 5) 0 0 0 (vec3 0 4.3 0),
      call_SetShaderTexture ''concrete'' 2, DrawBoxMesh,
      call_SetTransformations (vec3 1.05 0.06 0.7) 0 16 0 (vec3 (- 1.4) 2.49 (- 0.45)),
      call_SetShaderTexture ''black'' 1, SetTextureUVScale 1 1, DrawBoxMesh,
      call_SetTransformations (vec3 1.05 0.75 0.06) (- 90) 16 0 (vec3 (- 1.4) 2.87 (- 0.05)),
      call_SetShaderTexture ''black'' 1, DrawBoxMesh,
      call_SetTransformations (vec3 0.13 0.45 0.13) 0 0 0 (vec3 0 2.57 (- 0.17)),
      call_SetShaderTexture ''gray'' 1, SetTextureUVScale 1 1, DrawCylinderMesh,
      call_SetTransformations (vec3 0.15 0.04 0.15) 0 0 0 (vec3 0 2.81 (- 0.17)),
      call_SetShaderTexture ''black'' 1, DrawCylinderMesh,
      call_SetTransformations (vec3 0.7 1.1 0.35) 0 (- 13) 0 (vec3 1.5 2.92 0.7),
      call_SetShaderTexture ''green'' 1, SetTextureUVScale 1 1, DrawBoxMesh]"

subsection \<open>Reachable states and the registry invariants\<close>

text \<open>States the public methods and the two registry methods lead to without a fault.\<close>

inductive reachable :: "SceneManager \<Rightarrow> bool" where
  ctor: "reachable (SceneManager_ctor p)"
| create: "reachable w \<Longrightarrow> CreateGLTexture env filename tg w = Inr (b, w') \<Longrightarrow> reachable w'"
| destroy: "reachable w \<Longrightarrow> DestroyGLTextures w = Inr w' \<Longrightarrow> reachable w'"
| prepare: "reachable w \<Longrightarrow> PrepareScene env w = Inr w' \<Longrightarrow> reachable w'"
| render: "reachable w \<Longrightarrow> RenderScene w = Inr w' \<Longrightarrow> reachable w'"

text \<open>
  States reached from the constructor by \<^verbatim>\<open>CreateGLTexture\<close> calls made while
  \<^verbatim>\<open>m_loadedTextures < 16\<close> and by \<^verbatim>\<open>DestroyGLTextures\<close> calls, in environments
  that satisfy \<open>E\<close>.
\<close>

inductive loads_and_destroys :: "(environment \<Rightarrow> bool) \<Rightarrow> SceneManager \<Rightarrow> bool"
  for E :: "environment \<Rightarrow> bool" where
  ld_ctor: "loads_and_destroys E (SceneManager_ctor p)"
| ld_create: "loads_and_destroys E w \<Longrightarrow> m_loadedTextures w < 16 \<Longrightarrow> E env \<Longrightarrow>
     CreateGLTexture env filename tg w = Inr (b, w') \<Longrightarrow> loads_and_destroys E w'"
| ld_destroy: "loads_and_destroys E w \<Longrightarrow> DestroyGLTextures w = Inr w' \<Longrightarrow>
     loads_and_destroys E w'"

definition any_environment :: "environment \<Rightarrow> bool" where
  "any_environment env = True"

text \<open>\<^verbatim>\<open>glGenTextures\<close> never writes \<^verbatim>\<open>(uint32_t)-1\<close>, the value the class uses for "no texture".\<close>

definition names_avoid_sentinel :: "environment \<Rightarrow> bool" where
  "names_avoid_sentinel env = (\<forall>log. fresh_texture env log \<noteq> - 1)"

definition unused_slots_reset :: "SceneManager \<Rightarrow> bool" where
  "unused_slots_reset w =
     list_all (\<lambda>e. tag e = ''/0'' \<and> ID e = - 1)
       (drop (nat (m_loadedTextures w)) (m_textureIDs w))"

definition loaded_slots_occupied :: "SceneManager \<Rightarrow> bool" where
  "loaded_slots_occupied w =
     list_all (\<lambda>e. ID e \<noteq> - 1) (take (nat (m_loadedTextures w)) (m_textureIDs w))"

definition registry_in_bounds :: "SceneManager \<Rightarrow> bool" where
  "registry_in_bounds w =
     (0 \<le> m_loadedTextures w \<and> m_loadedTextures w \<le> 16 \<and> length (m_textureIDs w) = 16)"

text \<open>
  The six files \<^verbatim>\<open>LoadSceneTextures\<close> asks for, and the files \<^verbatim>\<open>CreateGLTexture\<close>
  uploads: those \<^verbatim>\<open>stbi_load\<close> decodes to 3 or 4 channels.
\<close>

definition scene_texture_files :: "string list" where
  "scene_texture_files =
     [''textures/wood.jpg'', ''textures/white_wood.jpg'', ''textures/concrete.png'',
      ''textures/green.png'', ''textures/gray.png'', ''textures/black.png'']"

definition loadable :: "environment \<Rightarrow> string \<Rightarrow> bool" where
  "loadable env filename =
     (case image_on_disk env filename of
        None \<Rightarrow> False
      | Some img \<Rightarrow> colorChannels img = 3 \<or> colorChannels img = 4)"

subsection \<open>Closed forms of the logs\<close>

definition slot_of :: "string \<Rightarrow> SceneManager \<Rightarrow> int" where
  "slot_of tg w = (case FindTextureSlot tg w of Inr (slot, w') \<Rightarrow> slot | Inl e \<Rightarrow> - 1)"

definition transform_calls ::
  "vec3 \<Rightarrow> float \<Rightarrow> float \<Rightarrow> float \<Rightarrow> vec3 \<Rightarrow> SceneManager \<Rightarrow> event list" where
  "transform_calls s rx ry rz p w =
     call_SetTransformations s rx ry rz p #
     (if m_pShaderManager w \<noteq> nullptr then [setMat4Value ''model'' (model_matrix s rx ry rz p)]
      else [])"

definition texture_calls :: "string \<Rightarrow> float \<Rightarrow> SceneManager \<Rightarrow> event list" where
  "texture_calls tg s w =
     call_SetShaderTexture tg s #
     (if m_pShaderManager w \<noteq> nullptr then
        [setIntValue ''bUseTexture'' 1,
         setSampler2DValue ''objectTexture'' (slot_of tg w),
         setVec2Value ''UVscale'' (vec2 s s)]
      else [])"

definition RenderScene_calls :: "SceneManager \<Rightarrow> event list" where
  "RenderScene_calls w =
     transform_calls (vec3 50 1 50) 0 0 0 (vec3 0 (- 0.5) 0) w @
     texture_calls ''wood'' 10 w @ [DrawPlaneMesh] @
     transform_calls (vec3 10 4 4) 0 0 0 (vec3 0 2 0) w @
     texture_calls ''whiteWood'' 2 w @ [DrawBoxMesh] @
     transform_calls (vec3 11 0.3 5) 0 0 0 (vec3 0 4.3 0) w @
     texture_calls ''concrete'' 2 w @ [DrawBoxMesh] @
     transform_calls (vec3 1.05 0.06 0.7) 0 16 0 (vec3 (- 1.4) 2.49 (- 0.45)) w @
     texture_calls ''black'' 1 w @ [SetTextureUVScale 1 1, DrawBoxMesh] @
     transform_calls (vec3 1.05 0.75 0.06) (- 90) 16 0 (vec3 (- 1.4) 2.87 (- 0.05)) w @
     texture_calls ''black'' 1 w @ [DrawBoxMesh] @
     transform_calls (vec3 0.13 0.45 0.13) 0 0 0 (vec3 0 2.57 (- 0.17)) w @
     texture_calls ''gray'' 1 w @ [SetTextureUVScale 1 1, DrawCylinderMesh] @
     transform_calls (vec3 0.15 0.04 0.15) 0 0 0 (vec3 0 2.81 (- 0.17)) w @
     texture_calls ''black'' 1 w @ [DrawCylinderMesh] @
     transform_calls (vec3 0.7 1.1 0.35) 0 (- 13) 0 (vec3 1.5 2.92 0.7) w @
     texture_calls ''green'' 1 w @ [SetTextureUVScale 1 1, DrawBoxMesh]"

definition lighting_uploads :: "event list" where
  "lighting_uploads =
     [setBoolValue ''bUseLighting'' True,
      setVec3Value ''dirLight.direction'' (vec3 (- 0.5) (- 1) (- 0.3)),
      setVec3Value ''dirLight.ambient'' (vec3 0.1 0.1 0.1),
      setVec3Value ''dirLight.diffuse'' (vec3 0.8 0.8 0.8),
      setVec3Value ''dirLight.specular'' (vec3 1 1 1),
      setVec3Value ''pointLight.position'' (vec3 0 10 0),
      setVec3Value ''pointLight.ambient'' (vec3 0.05 0.05 0.05),
      setVec3Value ''pointLight.diffuse'' (vec3 0.5 0.5 0.5),
      setVec3Value ''pointLight.specular'' (vec3 0.7 0.7 0.7),
      setFloatValue ''pointLight.constant'' 1,
      setFloatValue ''pointLight.linear'' 0.09,
      setFloatValue ''pointLight.quadratic'' 0.032]"

subsection \<open>Example environments and states\<close>

text \<open>Every file is there and decodes to an RGB image; texture names are 1, 2, 3, ...\<close>

fun is_glGenTextures :: "event \<Rightarrow> bool" where
  "is_glGenTextures (glGenTextures name) = True"
| "is_glGenTextures e = False"

definition all_files_rgb :: environment where
  "all_files_rgb =
     \<lparr>image_on_disk = (\<lambda>filename. Some \<lparr>width = 64, height = 64, colorChannels = 3\<rparr>),
      fresh_texture = (\<lambda>log. 1 + of_nat (length (filter is_glGenTextures log)))\<rparr>"

text \<open>No file is there.\<close>

definition no_files :: environment where
  "no_files = \<lparr>image_on_disk = (\<lambda>filename. None), fresh_texture = (\<lambda>log. 1)\<rparr>"

text \<open>Every file is there, and the graphics library hands out the name \<open>0xFFFFFFFF\<close>.\<close>

definition sentinel_names :: environment where
  "sentinel_names =
     \<lparr>image_on_disk = (\<lambda>filename. Some \<lparr>width = 64, height = 64, colorChannels = 4\<rparr>),
      fresh_texture = (\<lambda>log. - 1)\<rparr>"

text \<open>Every file is there and decodes to an RGBA image; the texture name is always 1.\<close>

definition all_files_rgba :: environment where
  "all_files_rgba =
     \<lparr>image_on_disk = (\<lambda>filename. Some \<lparr>width = 64, height = 64, colorChannels = 4\<rparr>),
      fresh_texture = (\<lambda>log. 1)\<rparr>"

definition fresh_scene :: SceneManager where
  "fresh_scene = SceneManager_ctor (ShaderManager_at 0)"

text \<open>
  The constructor, one load in which the graphics library hands out \<open>0xFFFFFFFF\<close>, then
  \<^verbatim>\<open>DestroyGLTextures\<close>.
\<close>

definition stale_slot_scene :: SceneManager where
  "stale_slot_scene =
     (case run [discard (CreateGLTexture sentinel_names ''textures/wood.jpg'' ''wood''),
                DestroyGLTextures] fresh_scene of
        Inr w \<Rightarrow> w
      | Inl e \<Rightarrow> fresh_scene)"

text \<open>The constructor, a load, \<^verbatim>\<open>DestroyGLTextures\<close>, and another load.\<close>

definition reloaded_scene :: SceneManager where
  "reloaded_scene =
     (case run [discard (CreateGLTexture all_files_rgba ''textures/wood.jpg'' ''wood''),
                DestroyGLTextures,
                discard (CreateGLTexture all_files_rgba ''textures/gray.png'' ''gray'')] fresh_scene of
        Inr w \<Rightarrow> w
      | Inl e \<Rightarrow> fresh_scene)"

text \<open>Three loaded textures, two of them with the same tag.\<close>

definition three_loaded :: SceneManager where
  "three_loaded =
     \<lparr>m_pShaderManager = ShaderManager_at 0,
      m_loadedTextures = 3,
      m_textureIDs =
        [\<lparr>tag = ''wood'', ID = 1\<rparr>, \<lparr>tag = ''gray'', ID = 2\<rparr>, \<lparr>tag = ''gray'', ID = 3\<rparr>,
         empty_slot, empty_slot, empty_slot, empty_slot, empty_slot, empty_slot, empty_slot,
         empty_slot, empty_slot, empty_slot, empty_slot, empty_slot, empty_slot],
      calls = []\<rparr>"

section \<open>Properties\<close>

text \<open>The three loops are unfolded one step at a time, never by the simplifier on its own.\<close>

declare FindTextureSlot_from.simps [simp del]
declare BindGLTextures_from.simps [simp del]
declare DestroyGLTextures_from.simps [simp del]

subsection \<open>The log\<close>

lemma emit_fields:
  "m_pShaderManager (emit es w) = m_pShaderManager w"
  "m_loadedTextures (emit es w) = m_loadedTextures w"
  "m_textureIDs (emit es w) = m_textureIDs w"
  "calls (emit es w) = calls w @ es"
  by (simp_all add: emit_def)

lemma emit_emit: "emit es (emit es' w) = emit (es' @ es) w"
  by (simp add: emit_def)

subsection \<open>The lookup loop\<close>

lemma FindTextureSlot_from_result:
  assumes "0 \<le> i" "m_loadedTextures w \<le> 16"
  shows "\<exists>r. FindTextureSlot_from i tg w = Inr (r, w) \<and>
           ((r = - 1 \<and> (\<forall>j. i \<le> j \<and> j < m_loadedTextures w \<longrightarrow> tag (m_textureIDs w ! nat j) \<noteq> tg))
            \<or> (i \<le> r \<and> r < m_loadedTextures w \<and> tag (m_textureIDs w ! nat r) = tg
                \<and> (\<forall>j. i \<le> j \<and> j < r \<longrightarrow> tag (m_textureIDs w ! nat j) \<noteq> tg)))"
  using assms
proof (induction i tg w rule: FindTextureSlot_from.induct)
  case (1 i tg w)
  show ?case
  proof (cases "i < m_loadedTextures w")
    case False
    then have "FindTextureSlot_from i tg w = Inr (- 1, w)"
      by (subst FindTextureSlot_from.simps) simp
    moreover from False have "\<forall>j. i \<le> j \<and> j < m_loadedTextures w \<longrightarrow> tag (m_textureIDs w ! nat j) \<noteq> tg"
      by auto
    ultimately show ?thesis by blast
  next
    case inside: True
    with 1 have range: "0 \<le> i \<and> i < 16" by simp
    show ?thesis
    proof (cases "tag (m_textureIDs w ! nat i) = tg")
      case True
      with inside range have "FindTextureSlot_from i tg w = Inr (i, w)"
        by (subst FindTextureSlot_from.simps) simp
      moreover have "\<forall>j. i \<le> j \<and> j < i \<longrightarrow> tag (m_textureIDs w ! nat j) \<noteq> tg"
        by auto
      ultimately show ?thesis using True inside by blast
    next
      case False
      from 1 inside range False
      obtain r where r: "FindTextureSlot_from (i + 1) tg w = Inr (r, w)"
        and spec: "(r = - 1 \<and> (\<forall>j. i + 1 \<le> j \<and> j < m_loadedTextures w \<longrightarrow> tag (m_textureIDs w ! nat j) \<noteq> tg))
            \<or> (i + 1 \<le> r \<and> r < m_loadedTextures w \<and> tag (m_textureIDs w ! nat r) = tg
                \<and> (\<forall>j. i + 1 \<le> j \<and> j < r \<longrightarrow> tag (m_textureIDs w ! nat j) \<noteq> tg))"
        by fastforce
      have step: "\<And>j. i \<le> j \<Longrightarrow> j = i \<or> i + 1 \<le> j" by arith
      have here: "FindTextureSlot_from i tg w = Inr (r, w)"
        using inside range False r by (subst FindTextureSlot_from.simps) simp
      from spec show ?thesis
      proof
        assume "r = - 1 \<and> (\<forall>j. i + 1 \<le> j \<and> j < m_loadedTextures w \<longrightarrow> tag (m_textureIDs w ! nat j) \<noteq> tg)"
        with False step here show ?thesis by blast
      next
        assume "i + 1 \<le> r \<and> r < m_loadedTextures w \<and> tag (m_textureIDs w ! nat r) = tg
                \<and> (\<forall>j. i + 1 \<le> j \<and> j < r \<longrightarrow> tag (m_textureIDs w ! nat j) \<noteq> tg)"
        with False step here show ?thesis by force
      qed
    qed
  qed
qed

lemma FindTextureSlot_from_prefix:
  assumes "m_loadedTextures w' = m_loadedTextures w"
    and "take (nat (m_loadedTextures w)) (m_textureIDs w') = take (nat (m_loadedTextures w)) (m_textureIDs w)"
    and "0 \<le> i"
    and "FindTextureSlot_from i tg w = Inr (r, w)"
  shows "FindTextureSlot_from i tg w' = Inr (r, w')"
  using assms
proof (induction i tg w rule: FindTextureSlot_from.induct)
  case (1 i tg w)
  show ?case
  proof (cases "i < m_loadedTextures w")
    case False
    with 1(5) have "r = - 1"
      by (subst (asm) FindTextureSlot_from.simps) simp
    with False 1(2) show ?thesis
      by (subst FindTextureSlot_from.simps) simp
  next
    case inside: True
    with 1(5) have range: "0 \<le> i \<and> i < 16"
      by (subst (asm) FindTextureSlot_from.simps) (simp split: if_splits)
    with inside have "nat i < nat (m_loadedTextures w)" by simp
    then have same: "m_textureIDs w' ! nat i = m_textureIDs w ! nat i"
      using 1(3) by (metis nth_take)
    show ?thesis
    proof (cases "tag (m_textureIDs w ! nat i) = tg")
      case True
      with inside range 1(5) have "r = i"
        by (subst (asm) FindTextureSlot_from.simps) simp
      with True inside range 1(2) same show ?thesis
        by (subst FindTextureSlot_from.simps) simp
    next
      case False
      with inside range 1(5) have "FindTextureSlot_from (i + 1) tg w = Inr (r, w)"
        by (subst (asm) FindTextureSlot_from.simps) simp
      with False inside range 1 have "FindTextureSlot_from (i + 1) tg w' = Inr (r, w')"
        by simp
      with False inside range 1(2) same show ?thesis
        by (subst FindTextureSlot_from.simps) simp
    qed
  qed
qed

lemma FindTextureSlot_returns:
  assumes "0 \<le> m_loadedTextures w" "m_loadedTextures w \<le> 16"
  shows "FindTextureSlot tg w = Inr (slot_of tg w, w)"
proof -
  from FindTextureSlot_from_result [of 0 w tg] assms
  obtain r where "FindTextureSlot_from 0 tg w = Inr (r, w)" by auto
  then show ?thesis by (simp add: FindTextureSlot_def slot_of_def)
qed

lemma slot_of_emit:
  assumes "0 \<le> m_loadedTextures w" "m_loadedTextures w \<le> 16"
  shows "slot_of tg (emit es w) = slot_of tg w"
proof -
  have "FindTextureSlot_from 0 tg w = Inr (slot_of tg w, w)"
    using FindTextureSlot_returns [OF assms] by (simp add: FindTextureSlot_def)
  then have "FindTextureSlot_from 0 tg (emit es w) = Inr (slot_of tg w, emit es w)"
    by (rule FindTextureSlot_from_prefix [rotated 3]) (simp_all add: emit_fields)
  then show ?thesis by (simp add: slot_of_def FindTextureSlot_def)
qed

subsection \<open>The calls of the shader methods and of a frame\<close>

lemma SetTransformations_emits:
  "SetTransformations s rx ry rz p w = Inr (emit (transform_calls s rx ry rz p w) w)"
  by (simp add: SetTransformations_def transform_calls_def Let_def emit_fields emit_emit g_ModelName_def)

lemma SetShaderTexture_emits:
  assumes "0 \<le> m_loadedTextures w" "m_loadedTextures w \<le> 16"
  shows "SetShaderTexture tg s w = Inr (emit (texture_calls tg s w) w)"
proof (cases "m_pShaderManager w = nullptr")
  case True
  then show ?thesis
    by (simp add: SetShaderTexture_def texture_calls_def Let_def emit_fields)
next
  case False
  let ?w1 = "emit [setIntValue g_UseTextureName 1] (emit [call_SetShaderTexture tg s] w)"
  have "FindTextureSlot tg ?w1 = Inr (slot_of tg ?w1, ?w1)"
    using assms by (intro FindTextureSlot_returns) (simp_all add: emit_fields)
  moreover have "slot_of tg ?w1 = slot_of tg w"
    using assms by (simp add: slot_of_emit emit_fields)
  ultimately show ?thesis using False
    by (simp add: SetShaderTexture_def texture_calls_def Let_def emit_fields emit_emit
        g_UseTextureName_def g_TextureValueName_def vec2_splat_def)
qed

lemma transform_calls_emit: "transform_calls s rx ry rz p (emit es w) = transform_calls s rx ry rz p w"
  by (simp add: transform_calls_def emit_fields)

lemma texture_calls_emit:
  assumes "0 \<le> m_loadedTextures w" "m_loadedTextures w \<le> 16"
  shows "texture_calls tg s (emit es w) = texture_calls tg s w"
  using assms by (simp add: texture_calls_def emit_fields slot_of_emit)

lemma RenderScene_emits:
  assumes "0 \<le> m_loadedTextures w" "m_loadedTextures w \<le> 16"
  shows "RenderScene w = Inr (emit (RenderScene_calls w) w)"
  using assms
  by (simp add: RenderScene_def RenderScene_calls_def Let_def ext_def
      SetTransformations_emits SetShaderTexture_emits emit_fields emit_emit
      transform_calls_emit texture_calls_emit)

subsection \<open>Loading a texture\<close>

lemma CreateGLTexture_store_cases:
  "CreateGLTexture_store textureID tg w =
     (if 0 \<le> m_loadedTextures w \<and> m_loadedTextures w < 16 then
        Inr (True,
             (emit [glGenerateMipmap GL_TEXTURE_2D, stbi_image_free, glBindTexture GL_TEXTURE_2D 0] w)
               \<lparr>m_textureIDs :=
                  (m_textureIDs w)[nat (m_loadedTextures w) :=
                     (m_textureIDs w ! nat (m_loadedTextures w))\<lparr>ID := textureID, tag := tg\<rparr>],
                m_loadedTextures := m_loadedTextures w + 1\<rparr>)
      else Inl (OutOfBounds (m_loadedTextures w)))"
  by (simp add: CreateGLTexture_store_def Let_def emit_fields)

lemma CreateGLTexture_False_iff:
  "(\<exists>w'. CreateGLTexture env filename tg w = Inr (False, w')) \<longleftrightarrow>
   (image_on_disk env filename = None \<or>
    (\<exists>img. image_on_disk env filename = Some img \<and> colorChannels img \<noteq> 3 \<and> colorChannels img \<noteq> 4))"
  by (auto simp: CreateGLTexture_def CreateGLTexture_store_cases Let_def split: option.splits if_splits)

lemma CreateGLTexture_False_frame:
  assumes "CreateGLTexture env filename tg w = Inr (False, w')"
  shows "m_loadedTextures w' = m_loadedTextures w \<and> m_textureIDs w' = m_textureIDs w
         \<and> m_pShaderManager w' = m_pShaderManager w"
  using assms
  by (auto simp: CreateGLTexture_def CreateGLTexture_store_cases Let_def emit_fields
      split: option.splits if_splits)

lemma CreateGLTexture_True_effect:
  assumes "CreateGLTexture env filename tg w = Inr (True, w')"
  shows "0 \<le> m_loadedTextures w \<and> m_loadedTextures w < 16
         \<and> m_loadedTextures w' = m_loadedTextures w + 1
         \<and> (\<exists>name. m_textureIDs w' =
               (m_textureIDs w)[nat (m_loadedTextures w) :=
                  (m_textureIDs w ! nat (m_loadedTextures w))\<lparr>ID := name, tag := tg\<rparr>]
               \<and> (\<exists>log. name = fresh_texture env log))
         \<and> m_pShaderManager w' = m_pShaderManager w"
  using assms
  by (auto simp: CreateGLTexture_def CreateGLTexture_store_cases Let_def emit_fields
      split: option.splits if_splits)

lemma CreateGLTexture_returns:
  assumes "0 \<le> m_loadedTextures w" "m_loadedTextures w < 16"
  shows "\<exists>b w'. CreateGLTexture env filename tg w = Inr (b, w')"
  using assms
  by (auto simp: CreateGLTexture_def CreateGLTexture_store_cases Let_def emit_fields
      split: option.splits if_splits)

subsection \<open>Sequences of calls\<close>

lemma appends_refl: "appends Q w w"
  by (simp add: appends_def)

lemma appends_trans: "appends Q w w' \<Longrightarrow> appends Q w' w'' \<Longrightarrow> appends Q w w''"
  by (auto simp: appends_def)

lemma run_appends:
  assumes "\<And>f v v'. f \<in> set fs \<Longrightarrow> f v = Inr v' \<Longrightarrow> appends Q v v'"
    and "run fs w = Inr w'"
  shows "appends Q w w'"
  using assms
proof (induction fs arbitrary: w)
  case Nil
  then show ?case by (simp add: appends_refl)
next
  case (Cons f fs)
  from Cons.prems(2) obtain v where v: "f w = Inr v" and rest: "run fs v = Inr w'"
    by (auto split: sum.splits)
  have tail: "\<And>g u u'. g \<in> set fs \<Longrightarrow> g u = Inr u' \<Longrightarrow> appends Q u u'"
    using Cons.prems(1) by (meson list.set_intros(2))
  have "appends Q w v"
    using Cons.prems(1) [of f w v] v by simp
  moreover have "appends Q v w'"
    by (rule Cons.IH [OF tail rest])
  ultimately show ?case by (rule appends_trans)
qed

lemma run_invariant:
  assumes "\<And>f v v'. f \<in> set fs \<Longrightarrow> P v \<Longrightarrow> f v = Inr v' \<Longrightarrow> P v'"
    and "P w" and "run fs w = Inr w'"
  shows "P w'"
  using assms
proof (induction fs arbitrary: w)
  case Nil
  then show ?case by simp
next
  case (Cons f fs)
  from Cons.prems(3) obtain v where v: "f w = Inr v" and rest: "run fs v = Inr w'"
    by (auto split: sum.splits)
  have tail: "\<And>g u u'. g \<in> set fs \<Longrightarrow> P u \<Longrightarrow> g u = Inr u' \<Longrightarrow> P u'"
    using Cons.prems(1) by (meson list.set_intros(2))
  have "P v"
    using Cons.prems(1) [of f w v] Cons.prems(2) v by simp
  then show ?case
    by (intro Cons.IH [OF tail _ rest])
qed

lemma discard_Inr:
  "discard f w = Inr w' \<longleftrightarrow> (\<exists>b. f w = Inr (b, w'))"
  by (auto simp: discard_def split: sum.splits)

subsection \<open>What the methods keep: the bounds of the registry, the shape of the log\<close>

lemma CreateGLTexture_appends:
  assumes "CreateGLTexture env filename tg w = Inr (b, w')"
  shows "appends is_texture_setup w w'"
  using assms
  by (auto simp: CreateGLTexture_def CreateGLTexture_store_cases Let_def emit_fields appends_def
      split: option.splits if_splits)

lemma CreateGLTexture_in_bounds:
  assumes "CreateGLTexture env filename tg w = Inr (b, w')" and "registry_in_bounds w"
  shows "registry_in_bounds w'"
proof (cases b)
  case True
  with assms CreateGLTexture_True_effect [of env filename tg w w'] show ?thesis
    by (auto simp: registry_in_bounds_def)
next
  case False
  with assms CreateGLTexture_False_frame [of env filename tg w w'] show ?thesis
    by (auto simp: registry_in_bounds_def)
qed

lemma BindGLTextures_from_emits:
  assumes "BindGLTextures_from i w = Inr w'"
  shows "\<exists>es. w' = emit es w \<and> list_all is_texture_setup es"
  using assms
proof (induction i w rule: BindGLTextures_from.induct)
  case (1 i w)
  show ?case
  proof (cases "i < m_loadedTextures w")
    case False
    with 1(2) have "w' = w"
      by (subst (asm) BindGLTextures_from.simps) simp
    then have "w' = emit [] w" by (simp add: emit_def)
    then show ?thesis by (intro exI [of _ "[]"]) simp
  next
    case True
    let ?step = "[glActiveTexture i, glBindTexture GL_TEXTURE_2D (ID (m_textureIDs w ! nat i))]"
    from True 1(2) have range: "0 \<le> i \<and> i < 16"
      by (subst (asm) BindGLTextures_from.simps) (simp split: if_splits)
    with True 1(2) have "BindGLTextures_from (i + 1) (emit ?step w) = Inr w'"
      by (subst (asm) BindGLTextures_from.simps) simp
    with 1(1) True range obtain es where "w' = emit es (emit ?step w)" "list_all is_texture_setup es"
      by blast
    then have "w' = emit (?step @ es) w \<and> list_all is_texture_setup (?step @ es)"
      by (simp add: emit_emit)
    then show ?thesis by blast
  qed
qed

lemma BindGLTextures_appends:
  assumes "BindGLTextures w = Inr w'"
  shows "appends is_texture_setup w w'"
  using BindGLTextures_from_emits [of 0 w w'] assms
  by (auto simp: BindGLTextures_def appends_def emit_fields)

lemma BindGLTextures_in_bounds:
  assumes "BindGLTextures w = Inr w'" and "registry_in_bounds w"
  shows "registry_in_bounds w'"
  using BindGLTextures_from_emits [of 0 w w'] assms
  by (auto simp: BindGLTextures_def registry_in_bounds_def emit_fields)

lemma DestroyGLTextures_from_frame:
  assumes "DestroyGLTextures_from i w = Inr w'"
  shows "m_loadedTextures w' = m_loadedTextures w \<and> length (m_textureIDs w') = length (m_textureIDs w)"
  using assms
proof (induction i w rule: DestroyGLTextures_from.induct)
  case (1 i w)
  show ?case
  proof (cases "i < m_loadedTextures w")
    case False
    with 1(3) show ?thesis
      by (subst (asm) DestroyGLTextures_from.simps) simp
  next
    case True
    from True 1(3) have range: "0 \<le> i \<and> i < 16"
      by (subst (asm) DestroyGLTextures_from.simps) (simp split: if_splits)
    show ?thesis
    proof (cases "ID (m_textureIDs w ! nat i) \<noteq> - 1")
      case used: True
      let ?v = "(emit [glDeleteTextures (ID (m_textureIDs w ! nat i))] w)
                 \<lparr>m_textureIDs :=
                    (m_textureIDs w)[nat i := (m_textureIDs w ! nat i)\<lparr>ID := - 1, tag := ''/0''\<rparr>]\<rparr>"
      from True range used 1(3) have "DestroyGLTextures_from (i + 1) ?v = Inr w'"
        by (subst (asm) DestroyGLTextures_from.simps) simp
      with 1(1) True range used show ?thesis by (simp add: emit_fields)
    next
      case False
      with True range 1(3) have "DestroyGLTextures_from (i + 1) w = Inr w'"
        by (subst (asm) DestroyGLTextures_from.simps) simp
      with 1(2) True range False show ?thesis by simp
    qed
  qed
qed

lemma DestroyGLTextures_in_bounds:
  assumes "DestroyGLTextures w = Inr w'" and "registry_in_bounds w"
  shows "registry_in_bounds w'"
proof -
  from assms(1) obtain v where v: "DestroyGLTextures_from 0 w = Inr v" and w': "w' = v\<lparr>m_loadedTextures := 0\<rparr>"
    by (auto simp: DestroyGLTextures_def split: sum.splits)
  from DestroyGLTextures_from_frame [OF v] assms(2) w' show ?thesis
    by (simp add: registry_in_bounds_def)
qed

lemma SetupSceneLights_emits:
  "SetupSceneLights w =
     (if m_pShaderManager w = nullptr then Inl NullDereference else Inr (emit lighting_uploads w))"
  by (simp add: SetupSceneLights_def ext_def emit_emit lighting_uploads_def vec3_splat_def
      g_UseLightingName_def)

lemma LoadSceneTextures_appends:
  assumes "LoadSceneTextures env w = Inr w'"
  shows "appends is_texture_setup w w'"
  using _ assms [unfolded LoadSceneTextures_def]
  by (rule run_appends) (auto simp: discard_Inr dest: CreateGLTexture_appends BindGLTextures_appends)

lemma LoadSceneTextures_in_bounds:
  assumes "LoadSceneTextures env w = Inr w'" and "registry_in_bounds w"
  shows "registry_in_bounds w'"
  using _ assms(2) assms(1) [unfolded LoadSceneTextures_def]
  by (rule run_invariant) (auto simp: discard_Inr dest: CreateGLTexture_in_bounds BindGLTextures_in_bounds)

lemma PrepareScene_log:
  assumes "PrepareScene env w = Inr w'"
  shows "m_pShaderManager w \<noteq> nullptr \<and>
         (\<exists>loads. issued w w' = loads @ [LoadPlaneMesh, LoadBoxMesh, LoadCylinderMesh] @ lighting_uploads
                  \<and> list_all is_texture_setup loads)"
proof -
  from assms obtain v where v: "LoadSceneTextures env w = Inr v"
    and rest: "SetupSceneLights (emit [LoadPlaneMesh, LoadBoxMesh, LoadCylinderMesh] v) = Inr w'"
    by (auto simp: PrepareScene_def ext_def emit_emit split: sum.splits)
  from LoadSceneTextures_appends [OF v] obtain loads
    where ptr: "m_pShaderManager v = m_pShaderManager w"
      and loads: "calls v = calls w @ loads" "list_all is_texture_setup loads"
    by (auto simp: appends_def)
  from rest have nn: "m_pShaderManager v \<noteq> nullptr"
    and w': "w' = emit ([LoadPlaneMesh, LoadBoxMesh, LoadCylinderMesh] @ lighting_uploads) v"
    by (auto simp: SetupSceneLights_emits emit_fields emit_emit split: if_splits)
  from w' loads have "issued w w' = loads @ [LoadPlaneMesh, LoadBoxMesh, LoadCylinderMesh] @ lighting_uploads"
    by (simp add: issued_def emit_fields)
  with nn ptr loads show ?thesis by auto
qed

lemma PrepareScene_in_bounds:
  assumes "PrepareScene env w = Inr w'" and "registry_in_bounds w"
  shows "registry_in_bounds w'"
proof -
  from assms obtain v where v: "LoadSceneTextures env w = Inr v"
    and rest: "SetupSceneLights (emit [LoadPlaneMesh, LoadBoxMesh, LoadCylinderMesh] v) = Inr w'"
    by (auto simp: PrepareScene_def ext_def emit_emit split: sum.splits)
  from rest have "w' = emit ([LoadPlaneMesh, LoadBoxMesh, LoadCylinderMesh] @ lighting_uploads) v"
    by (auto simp: SetupSceneLights_emits emit_fields emit_emit split: if_splits)
  with LoadSceneTextures_in_bounds [OF v assms(2)] show ?thesis
    by (simp add: registry_in_bounds_def emit_fields)
qed

lemma reachable_in_bounds:
  assumes "reachable w"
  shows "registry_in_bounds w"
  using assms
proof (induction rule: reachable.induct)
  case (ctor p)
  show ?case by (simp add: registry_in_bounds_def SceneManager_ctor_def)
next
  case (create w env filename tg b w')
  then show ?case by (simp add: CreateGLTexture_in_bounds)
next
  case (destroy w w')
  then show ?case by (simp add: DestroyGLTextures_in_bounds)
next
  case (prepare w env w')
  then show ?case by (simp add: PrepareScene_in_bounds)
next
  case (render w w')
  then have "w' = emit (RenderScene_calls w) w"
    by (simp add: RenderScene_emits registry_in_bounds_def)
  with render show ?case by (simp add: registry_in_bounds_def emit_fields)
qed

subsection \<open>The log of one frame\<close>

lemma issued_emit: "issued w (emit es w) = es"
  by (simp add: issued_def emit_def)

lemma slot_of_registry:
  assumes "0 \<le> m_loadedTextures w" "m_loadedTextures w \<le> 16"
    and "m_loadedTextures w' = m_loadedTextures w" and "m_textureIDs w' = m_textureIDs w"
  shows "slot_of tg w' = slot_of tg w"
proof -
  have "FindTextureSlot_from 0 tg w = Inr (slot_of tg w, w)"
    using FindTextureSlot_returns [OF assms(1,2)] by (simp add: FindTextureSlot_def)
  then have "FindTextureSlot_from 0 tg w' = Inr (slot_of tg w, w')"
    by (rule FindTextureSlot_from_prefix [rotated 3]) (simp_all add: assms(3,4))
  then show ?thesis by (simp add: slot_of_def FindTextureSlot_def)
qed

lemma RenderScene_calls_registry:
  assumes "0 \<le> m_loadedTextures w" "m_loadedTextures w \<le> 16"
    and "m_loadedTextures w' = m_loadedTextures w" and "m_textureIDs w' = m_textureIDs w"
    and "m_pShaderManager w' = nullptr \<longleftrightarrow> m_pShaderManager w = nullptr"
  shows "RenderScene_calls w' = RenderScene_calls w"
  using assms(5) slot_of_registry [OF assms(1-4)]
  by (cases "m_pShaderManager w = nullptr")
     (simp_all add: RenderScene_calls_def transform_calls_def texture_calls_def)

lemma RenderScene_calls_scene: "filter is_scene_call (RenderScene_calls w) = fixed_scene"
  by (cases "m_pShaderManager w = nullptr")
     (simp_all add: RenderScene_calls_def transform_calls_def texture_calls_def fixed_scene_def)

lemma RenderScene_calls_draws:
  "filter is_draw (RenderScene_calls w) =
     [DrawPlaneMesh, DrawBoxMesh, DrawBoxMesh, DrawBoxMesh, DrawBoxMesh,
      DrawCylinderMesh, DrawCylinderMesh, DrawBoxMesh]"
  by (cases "m_pShaderManager w = nullptr")
     (simp_all add: RenderScene_calls_def transform_calls_def texture_calls_def)

lemma RenderScene_calls_no_texture_upload: "\<not> list_ex is_texture_upload (RenderScene_calls w)"
  by (cases "m_pShaderManager w = nullptr")
     (simp_all add: RenderScene_calls_def transform_calls_def texture_calls_def)

lemma RenderScene_calls_no_lighting: "\<not> list_ex is_lighting_upload (RenderScene_calls w)"
  by (cases "m_pShaderManager w = nullptr")
     (simp_all add: RenderScene_calls_def transform_calls_def texture_calls_def)

lemma RenderScene_calls_per_draw_calls:
  "per_draw has_transform_and_texture_call (RenderScene_calls w) []"
  by (cases "m_pShaderManager w = nullptr")
     (simp_all add: RenderScene_calls_def transform_calls_def texture_calls_def
      has_transform_and_texture_call_def)

lemma RenderScene_calls_per_draw_uploads:
  assumes "m_pShaderManager w \<noteq> nullptr"
  shows "per_draw has_model_and_texture_uploads (RenderScene_calls w) []"
  using assms
  by (simp add: RenderScene_calls_def transform_calls_def texture_calls_def
      has_model_and_texture_uploads_def)

lemma RenderScene_calls_last: "RenderScene_calls w = butlast (RenderScene_calls w) @ [DrawBoxMesh]"
proof -
  have "RenderScene_calls w \<noteq> []" "last (RenderScene_calls w) = DrawBoxMesh"
    by (simp_all add: RenderScene_calls_def)
  then show ?thesis by (metis append_butlast_last_id)
qed

lemma per_draw_append:
  assumes "is_draw d"
  shows "per_draw P (es @ d # fs) seg = (per_draw P (es @ [d]) seg \<and> per_draw P fs [])"
  using assms by (induction es arbitrary: seg) auto

lemma RenderScene_calls_eight_draws: "length (filter is_draw (RenderScene_calls w)) = 8"
  by (simp add: RenderScene_calls_draws)

lemma lighting_uploads_all: "list_all is_lighting_upload lighting_uploads"
  by (simp add: lighting_uploads_def is_light_name_def)

lemma issued_by_RenderScene:
  assumes "0 \<le> m_loadedTextures w" "m_loadedTextures w \<le> 16"
  shows "issued_by RenderScene w = RenderScene_calls w"
  by (simp add: issued_by_def RenderScene_emits [OF assms] issued_emit)

lemma frames_log:
  assumes "registry_in_bounds v" and "run (replicate n RenderScene) v = Inr w'"
  shows "\<exists>post. w' = emit post v \<and> \<not> list_ex is_texture_upload post
            \<and> length (filter is_draw post) = 8 * n
            \<and> per_draw has_transform_and_texture_call post []"
  using assms
proof (induction n arbitrary: v)
  case 0
  then have "w' = emit [] v" by (simp add: emit_def)
  then show ?case by (intro exI [of _ "[]"]) simp
next
  case (Suc n)
  from Suc.prems(1) have b: "0 \<le> m_loadedTextures v" "m_loadedTextures v \<le> 16"
    by (simp_all add: registry_in_bounds_def)
  let ?R = "RenderScene_calls v"
  have r: "RenderScene v = Inr (emit ?R v)" by (rule RenderScene_emits [OF b])
  with Suc.prems(2) have rest: "run (replicate n RenderScene) (emit ?R v) = Inr w'"
    by simp
  have "registry_in_bounds (emit ?R v)"
    using Suc.prems(1) by (simp add: registry_in_bounds_def emit_fields)
  from Suc.IH [OF this rest] obtain post where post: "w' = emit post (emit ?R v)"
    "\<not> list_ex is_texture_upload post" "length (filter is_draw post) = 8 * n"
    "per_draw has_transform_and_texture_call post []"
    by blast
  have "per_draw has_transform_and_texture_call (butlast ?R @ DrawBoxMesh # post) []"
    using per_draw_append [of DrawBoxMesh has_transform_and_texture_call "butlast ?R" post "[]"]
      RenderScene_calls_per_draw_calls [of v] RenderScene_calls_last [of v] post(4)
    by simp
  then have "per_draw has_transform_and_texture_call (?R @ post) []"
    using RenderScene_calls_last [of v] by (metis append.assoc append_Cons append_Nil)
  with post RenderScene_calls_no_texture_upload [of v] RenderScene_calls_eight_draws [of v]
  have "w' = emit (?R @ post) v \<and> \<not> list_ex is_texture_upload (?R @ post)
            \<and> length (filter is_draw (?R @ post)) = 8 * Suc n
            \<and> per_draw has_transform_and_texture_call (?R @ post) []"
    by (simp add: emit_emit)
  then show ?case by blast
qed

subsection \<open>Runs in which every texture file loads\<close>

lemma load_rgb:
  assumes "registry_in_bounds w" and "m_loadedTextures w < 16"
  shows "\<exists>w'. discard (CreateGLTexture all_files_rgb filename tg) w = Inr w'
           \<and> registry_in_bounds w' \<and> m_loadedTextures w' = m_loadedTextures w + 1
           \<and> m_pShaderManager w' = m_pShaderManager w"
  using assms
  by (simp add: discard_def CreateGLTexture_def CreateGLTexture_store_cases Let_def emit_fields
      all_files_rgb_def registry_in_bounds_def)

lemma load_rgb_full:
  assumes "m_loadedTextures w = 16"
  shows "discard (CreateGLTexture all_files_rgb filename tg) w = Inl (OutOfBounds 16)"
  using assms
  by (simp add: discard_def CreateGLTexture_def CreateGLTexture_store_cases Let_def emit_fields
      all_files_rgb_def)

lemma BindGLTextures_from_total:
  assumes "m_loadedTextures w \<le> 16" and "0 \<le> i"
  shows "\<exists>es. BindGLTextures_from i w = Inr (emit es w)"
  using assms
proof (induction i w rule: BindGLTextures_from.induct)
  case (1 i w)
  show ?case
  proof (cases "i < m_loadedTextures w")
    case False
    then have "BindGLTextures_from i w = Inr (emit [] w)"
      by (subst BindGLTextures_from.simps) (simp add: emit_def)
    then show ?thesis by blast
  next
    case True
    let ?step = "[glActiveTexture i, glBindTexture GL_TEXTURE_2D (ID (m_textureIDs w ! nat i))]"
    from True 1(2,3) have range: "0 \<le> i \<and> i < 16" by simp
    with 1 True obtain es where "BindGLTextures_from (i + 1) (emit ?step w) = Inr (emit es (emit ?step w))"
      by (auto simp: emit_fields)
    with True range have "BindGLTextures_from i w = Inr (emit (?step @ es) w)"
      by (subst BindGLTextures_from.simps) (simp add: emit_emit)
    then show ?thesis by blast
  qed
qed

lemma BindGLTextures_total:
  assumes "registry_in_bounds w"
  shows "\<exists>es. BindGLTextures w = Inr (emit es w)"
  using BindGLTextures_from_total [of w 0] assms
  by (simp add: BindGLTextures_def registry_in_bounds_def)

lemma LoadSceneTextures_rgb:
  assumes "registry_in_bounds w" and "m_loadedTextures w \<le> 10"
  shows "\<exists>w'. LoadSceneTextures all_files_rgb w = Inr w'
           \<and> registry_in_bounds w' \<and> m_loadedTextures w' = m_loadedTextures w + 6
           \<and> m_pShaderManager w' = m_pShaderManager w"
proof -
  from load_rgb [of w "''textures/wood.jpg''" "''wood''"] assms
  obtain w1 where s1: "discard (CreateGLTexture all_files_rgb ''textures/wood.jpg'' ''wood'') w = Inr w1"
    and k1: "registry_in_bounds w1" "m_loadedTextures w1 = m_loadedTextures w + 1"
      "m_pShaderManager w1 = m_pShaderManager w"
    by auto
  from load_rgb [of w1 "''textures/white_wood.jpg''" "''whiteWood''"] k1 assms(2)
  obtain w2 where s2: "discard (CreateGLTexture all_files_rgb ''textures/white_wood.jpg'' ''whiteWood'') w1 = Inr w2"
    and k2: "registry_in_bounds w2" "m_loadedTextures w2 = m_loadedTextures w + 2"
      "m_pShaderManager w2 = m_pShaderManager w"
    by auto
  from load_rgb [of w2 "''textures/concrete.png''" "''concrete''"] k2 assms(2)
  obtain w3 where s3: "discard (CreateGLTexture all_files_rgb ''textures/concrete.png'' ''concrete'') w2 = Inr w3"
    and k3: "registry_in_bounds w3" "m_loadedTextures w3 = m_loadedTextures w + 3"
      "m_pShaderManager w3 = m_pShaderManager w"
    by auto
  from load_rgb [of w3 "''textures/green.png''" "''green''"] k3 assms(2)
  obtain w4 where s4: "discard (CreateGLTexture all_files_rgb ''textures/green.png'' ''green'') w3 = Inr w4"
    and k4: "registry_in_bounds w4" "m_loadedTextures w4 = m_loadedTextures w + 4"
      "m_pShaderManager w4 = m_pShaderManager w"
    by auto
  from load_rgb [of w4 "''textures/gray.png''" "''gray''"] k4 assms(2)
  obtain w5 where s5: "discard (CreateGLTexture all_files_rgb ''textures/gray.png'' ''gray'') w4 = Inr w5"
    and k5: "registry_in_bounds w5" "m_loadedTextures w5 = m_loadedTextures w + 5"
      "m_pShaderManager w5 = m_pShaderManager w"
    by auto
  from load_rgb [of w5 "''textures/black.png''" "''black''"] k5 assms(2)
  obtain w6 where s6: "discard (CreateGLTexture all_files_rgb ''textures/black.png'' ''black'') w5 = Inr w6"
    and k6: "registry_in_bounds w6" "m_loadedTextures w6 = m_loadedTextures w + 6"
      "m_pShaderManager w6 = m_pShaderManager w"
    by auto
  from BindGLTextures_total [OF k6(1)] obtain es where b: "BindGLTextures w6 = Inr (emit es w6)"
    by blast
  have "LoadSceneTextures all_files_rgb w = Inr (emit es w6)"
    by (simp add: LoadSceneTextures_def s1 s2 s3 s4 s5 s6 b)
  with k6 show ?thesis by (simp add: registry_in_bounds_def emit_fields)
qed

lemma LoadSceneTextures_rgb_overflow:
  assumes "registry_in_bounds w" and "m_loadedTextures w = 12"
  shows "LoadSceneTextures all_files_rgb w = Inl (OutOfBounds 16)"
proof -
  from load_rgb [of w "''textures/wood.jpg''" "''wood''"] assms
  obtain w1 where s1: "discard (CreateGLTexture all_files_rgb ''textures/wood.jpg'' ''wood'') w = Inr w1"
    and k1: "registry_in_bounds w1" "m_loadedTextures w1 = 13"
    by auto
  from load_rgb [of w1 "''textures/white_wood.jpg''" "''whiteWood''"] k1
  obtain w2 where s2: "discard (CreateGLTexture all_files_rgb ''textures/white_wood.jpg'' ''whiteWood'') w1 = Inr w2"
    and k2: "registry_in_bounds w2" "m_loadedTextures w2 = 14"
    by auto
  from load_rgb [of w2 "''textures/concrete.png''" "''concrete''"] k2
  obtain w3 where s3: "discard (CreateGLTexture all_files_rgb ''textures/concrete.png'' ''concrete'') w2 = Inr w3"
    and k3: "registry_in_bounds w3" "m_loadedTextures w3 = 15"
    by auto
  from load_rgb [of w3 "''textures/green.png''" "''green''"] k3
  obtain w4 where s4: "discard (CreateGLTexture all_files_rgb ''textures/green.png'' ''green'') w3 = Inr w4"
    and k4: "registry_in_bounds w4" "m_loadedTextures w4 = 16"
    by auto
  have s5: "discard (CreateGLTexture all_files_rgb ''textures/gray.png'' ''gray'') w4 = Inl (OutOfBounds 16)"
    by (rule load_rgb_full [OF k4(2)])
  show ?thesis
    by (simp add: LoadSceneTextures_def s1 s2 s3 s4 s5)
qed

lemma PrepareScene_rgb:
  assumes "registry_in_bounds w" and "m_loadedTextures w \<le> 10" and "m_pShaderManager w \<noteq> nullptr"
  shows "\<exists>w'. PrepareScene all_files_rgb w = Inr w'
           \<and> registry_in_bounds w' \<and> m_loadedTextures w' = m_loadedTextures w + 6
           \<and> m_pShaderManager w' = m_pShaderManager w"
proof -
  from LoadSceneTextures_rgb [OF assms(1,2)] obtain v
    where v: "LoadSceneTextures all_files_rgb w = Inr v"
      and k: "registry_in_bounds v" "m_loadedTextures v = m_loadedTextures w + 6"
        "m_pShaderManager v = m_pShaderManager w"
    by blast
  with assms(3) have
    "PrepareScene all_files_rgb w =
       Inr (emit ([LoadPlaneMesh, LoadBoxMesh, LoadCylinderMesh] @ lighting_uploads) v)"
    by (simp add: PrepareScene_def ext_def emit_emit emit_fields SetupSceneLights_emits)
  with k show ?thesis by (simp add: registry_in_bounds_def emit_fields)
qed

lemma frames_total:
  assumes "registry_in_bounds v"
  shows "\<exists>w'. run (replicate n RenderScene) v = Inr w'"
  using assms
proof (induction n arbitrary: v)
  case 0
  show ?case by simp
next
  case (Suc n)
  then have b: "0 \<le> m_loadedTextures v" "m_loadedTextures v \<le> 16"
    by (simp_all add: registry_in_bounds_def)
  have "registry_in_bounds (emit (RenderScene_calls v) v)"
    using Suc.prems by (simp add: registry_in_bounds_def emit_fields)
  from Suc.IH [OF this] show ?case
    by (simp add: RenderScene_emits [OF b])
qed

lemma fresh_scene_facts:
  "registry_in_bounds fresh_scene" "m_loadedTextures fresh_scene = 0"
  "m_pShaderManager fresh_scene \<noteq> nullptr"
  by (simp_all add: fresh_scene_def SceneManager_ctor_def registry_in_bounds_def)

subsection \<open>The occupied prefix of the registry\<close>

lemma list_all_drop_nth:
  "list_all P (drop n xs) \<longleftrightarrow> (\<forall>j. n \<le> j \<and> j < length xs \<longrightarrow> P (xs ! j))"
proof
  assume a: "list_all P (drop n xs)"
  show "\<forall>j. n \<le> j \<and> j < length xs \<longrightarrow> P (xs ! j)"
  proof (intro allI impI)
    fix j assume j: "n \<le> j \<and> j < length xs"
    then have "j - n < length (drop n xs)" by auto
    with a have "P (drop n xs ! (j - n))" by (simp add: list_all_length)
    with j show "P (xs ! j)" by simp
  qed
next
  assume a: "\<forall>j. n \<le> j \<and> j < length xs \<longrightarrow> P (xs ! j)"
  then show "list_all P (drop n xs)"
    by (auto simp: list_all_length)
qed

lemma list_all_take_nth:
  "list_all P (take n xs) \<longleftrightarrow> (\<forall>j. j < n \<and> j < length xs \<longrightarrow> P (xs ! j))"
  by (auto simp: list_all_length)

lemma unused_slots_reset_nth:
  assumes "length (m_textureIDs w) = 16"
  shows "unused_slots_reset w \<longleftrightarrow>
    (\<forall>j. nat (m_loadedTextures w) \<le> j \<and> j < 16 \<longrightarrow>
        tag (m_textureIDs w ! j) = ''/0'' \<and> ID (m_textureIDs w ! j) = - 1)"
  using assms by (simp add: unused_slots_reset_def list_all_drop_nth)

lemma loaded_slots_occupied_nth:
  assumes "length (m_textureIDs w) = 16" and "m_loadedTextures w \<le> 16"
  shows "loaded_slots_occupied w \<longleftrightarrow>
    (\<forall>j. j < nat (m_loadedTextures w) \<longrightarrow> ID (m_textureIDs w ! j) \<noteq> - 1)"
  using assms by (auto simp: loaded_slots_occupied_def list_all_take_nth)

lemma reset_entry: "(e::TEXTURE_INFO)\<lparr>ID := - 1, tag := ''/0''\<rparr> = empty_slot"
  by (simp add: empty_slot_def)

lemma DestroyGLTextures_from_resets:
  assumes "DestroyGLTextures_from i w = Inr w'" and "0 \<le> i"
    and "length (m_textureIDs w) = 16"
    and "\<forall>j. nat i \<le> j \<and> j < nat (m_loadedTextures w) \<longrightarrow> ID (m_textureIDs w ! j) \<noteq> - 1"
  shows "\<forall>j < 16. m_textureIDs w' ! j =
           (if nat i \<le> j \<and> j < nat (m_loadedTextures w) then empty_slot else m_textureIDs w ! j)"
  using assms
proof (induction i w rule: DestroyGLTextures_from.induct)
  case (1 i w)
  show ?case
  proof (cases "i < m_loadedTextures w")
    case False
    with 1(3) have "w' = w"
      by (subst (asm) DestroyGLTextures_from.simps) simp
    with False 1(4) show ?thesis by auto
  next
    case True
    from True 1(3) have range: "0 \<le> i \<and> i < 16"
      by (subst (asm) DestroyGLTextures_from.simps) (simp split: if_splits)
    from True range 1(6) have used: "ID (m_textureIDs w ! nat i) \<noteq> - 1"
      by simp
    let ?v = "(emit [glDeleteTextures (ID (m_textureIDs w ! nat i))] w)
                 \<lparr>m_textureIDs :=
                    (m_textureIDs w)[nat i := (m_textureIDs w ! nat i)\<lparr>ID := - 1, tag := ''/0''\<rparr>]\<rparr>"
    from True range used 1(3) have rec: "DestroyGLTextures_from (i + 1) ?v = Inr w'"
      by (subst (asm) DestroyGLTextures_from.simps) simp
    have later: "\<forall>j. nat (i + 1) \<le> j \<and> j < nat (m_loadedTextures ?v) \<longrightarrow> ID (m_textureIDs ?v ! j) \<noteq> - 1"
      using 1(6) range by (auto simp: emit_fields nat_add_distrib)
    have "\<forall>j<16. m_textureIDs w' ! j =
           (if nat (i + 1) \<le> j \<and> j < nat (m_loadedTextures ?v) then empty_slot
            else m_textureIDs ?v ! j)"
      using 1(1) [OF True range used rec] range 1(5) later by (simp add: emit_fields)
    then show ?thesis
      using range True 1(5)
      by (auto simp: emit_fields reset_entry nth_list_update nat_add_distrib)
  qed
qed

lemma DestroyGLTextures_from_total:
  assumes "m_loadedTextures w \<le> 16" and "0 \<le> i"
  shows "\<exists>w'. DestroyGLTextures_from i w = Inr w'"
  using assms
proof (induction i w rule: DestroyGLTextures_from.induct)
  case (1 i w)
  show ?case
  proof (cases "i < m_loadedTextures w")
    case False
    then show ?thesis
      by (subst DestroyGLTextures_from.simps) simp
  next
    case True
    with 1(3,4) have range: "0 \<le> i \<and> i < 16" by simp
    show ?thesis
    proof (cases "ID (m_textureIDs w ! nat i) \<noteq> - 1")
      case used: True
      with 1(1) [OF True range used] 1(3) range True show ?thesis
        by (subst DestroyGLTextures_from.simps) (simp add: emit_fields)
    next
      case False
      with 1(2) [OF True range] 1(3) range True show ?thesis
        by (subst DestroyGLTextures_from.simps) simp
    qed
  qed
qed

lemma DestroyGLTextures_total:
  assumes "registry_in_bounds w"
  shows "\<exists>w'. DestroyGLTextures w = Inr w'"
  using DestroyGLTextures_from_total [of w 0] assms
  by (auto simp: DestroyGLTextures_def registry_in_bounds_def)

lemma CreateGLTexture_keeps_prefix:
  assumes "CreateGLTexture env filename tg w = Inr (b, w')" and "names_avoid_sentinel env"
    and "registry_in_bounds w" and "unused_slots_reset w" and "loaded_slots_occupied w"
  shows "unused_slots_reset w' \<and> loaded_slots_occupied w'"
proof (cases b)
  case False
  with assms(1) CreateGLTexture_False_frame [of env filename tg w w'] assms(4,5) show ?thesis
    by (simp add: unused_slots_reset_def loaded_slots_occupied_def)
next
  case True
  from assms(3) have len: "length (m_textureIDs w) = 16" and le: "m_loadedTextures w \<le> 16"
    by (simp_all add: registry_in_bounds_def)
  from True assms(1) CreateGLTexture_True_effect [of env filename tg w w']
  obtain name where n: "0 \<le> m_loadedTextures w" "m_loadedTextures w < 16"
    and n': "m_loadedTextures w' = m_loadedTextures w + 1"
    and xs': "m_textureIDs w' =
               (m_textureIDs w)[nat (m_loadedTextures w) :=
                  (m_textureIDs w ! nat (m_loadedTextures w))\<lparr>ID := name, tag := tg\<rparr>]"
    and name: "\<exists>log. name = fresh_texture env log"
    by auto
  from name assms(2) have fresh: "name \<noteq> - 1"
    by (auto simp: names_avoid_sentinel_def)
  have len': "length (m_textureIDs w') = 16" and le': "m_loadedTextures w' \<le> 16"
    using xs' len n n' by simp_all
  have old_unused: "\<forall>j. nat (m_loadedTextures w) \<le> j \<and> j < 16 \<longrightarrow>
        tag (m_textureIDs w ! j) = ''/0'' \<and> ID (m_textureIDs w ! j) = - 1"
    using assms(4) by (simp add: unused_slots_reset_nth [OF len])
  have old_used: "\<forall>j. j < nat (m_loadedTextures w) \<longrightarrow> ID (m_textureIDs w ! j) \<noteq> - 1"
    using assms(5) by (simp add: loaded_slots_occupied_nth [OF len le])
  have "\<forall>j. nat (m_loadedTextures w') \<le> j \<and> j < 16 \<longrightarrow>
        tag (m_textureIDs w' ! j) = ''/0'' \<and> ID (m_textureIDs w' ! j) = - 1"
    using old_unused n n' xs' len by (auto simp: nth_list_update nat_add_distrib)
  moreover have "\<forall>j. j < nat (m_loadedTextures w') \<longrightarrow> ID (m_textureIDs w' ! j) \<noteq> - 1"
  proof (intro allI impI)
    fix j assume "j < nat (m_loadedTextures w')"
    with n n' have "j < nat (m_loadedTextures w) \<or> j = nat (m_loadedTextures w)"
      by (auto simp: nat_add_distrib)
    then show "ID (m_textureIDs w' ! j) \<noteq> - 1"
      using old_used fresh xs' len n by (auto simp: nth_list_update)
  qed
  ultimately show ?thesis
    by (simp add: unused_slots_reset_nth [OF len'] loaded_slots_occupied_nth [OF len' le'])
qed

lemma DestroyGLTextures_keeps_prefix:
  assumes "DestroyGLTextures w = Inr w'"
    and "registry_in_bounds w" and "unused_slots_reset w" and "loaded_slots_occupied w"
  shows "unused_slots_reset w' \<and> loaded_slots_occupied w'"
proof -
  from assms(2) have len: "length (m_textureIDs w) = 16" and le: "m_loadedTextures w \<le> 16"
    and ge: "0 \<le> m_loadedTextures w"
    by (simp_all add: registry_in_bounds_def)
  from assms(1) obtain v where v: "DestroyGLTextures_from 0 w = Inr v"
    and w': "w' = v\<lparr>m_loadedTextures := 0\<rparr>"
    by (auto simp: DestroyGLTextures_def split: sum.splits)
  have used: "\<forall>j. nat 0 \<le> j \<and> j < nat (m_loadedTextures w) \<longrightarrow> ID (m_textureIDs w ! j) \<noteq> - 1"
    using assms(4) by (simp add: loaded_slots_occupied_nth [OF len le])
  have unused: "\<forall>j. nat (m_loadedTextures w) \<le> j \<and> j < 16 \<longrightarrow>
        tag (m_textureIDs w ! j) = ''/0'' \<and> ID (m_textureIDs w ! j) = - 1"
    using assms(3) by (simp add: unused_slots_reset_nth [OF len])
  from DestroyGLTextures_from_resets [OF v _ len used]
  have after: "\<forall>j<16. m_textureIDs v ! j =
           (if j < nat (m_loadedTextures w) then empty_slot else m_textureIDs w ! j)"
    by simp
  have len': "length (m_textureIDs w') = 16"
    using DestroyGLTextures_from_frame [OF v] len w' by simp
  have "\<forall>j. nat (m_loadedTextures w') \<le> j \<and> j < 16 \<longrightarrow>
        tag (m_textureIDs w' ! j) = ''/0'' \<and> ID (m_textureIDs w' ! j) = - 1"
  proof (intro allI impI)
    fix j assume "nat (m_loadedTextures w') \<le> j \<and> j < 16"
    then have j: "j < 16" by simp
    show "tag (m_textureIDs w' ! j) = ''/0'' \<and> ID (m_textureIDs w' ! j) = - 1"
    proof (cases "j < nat (m_loadedTextures w)")
      case True
      with after j w' show ?thesis by (simp add: empty_slot_def)
    next
      case False
      with after j w' unused show ?thesis by simp
    qed
  qed
  then have "unused_slots_reset w'"
    by (simp add: unused_slots_reset_nth [OF len'])
  moreover have "loaded_slots_occupied w'"
    using w' by (simp add: loaded_slots_occupied_def)
  ultimately show ?thesis by simp
qed

lemma load_rgba:
  assumes "registry_in_bounds w" and "m_loadedTextures w < 16"
  shows "CreateGLTexture all_files_rgba filename tg w =
           Inr (True,
             (emit [stbi_set_flip_vertically_on_load True, stbi_load filename,
                    cout_loaded filename 64 64 4,
                    glGenTextures 1,
                    glBindTexture GL_TEXTURE_2D 1,
                    glTexParameteri GL_TEXTURE_2D GL_TEXTURE_WRAP_S GL_REPEAT,
                    glTexParameteri GL_TEXTURE_2D GL_TEXTURE_WRAP_T GL_REPEAT,
                    glTexParameteri GL_TEXTURE_2D GL_TEXTURE_MIN_FILTER GL_LINEAR_MIPMAP_LINEAR,
                    glTexParameteri GL_TEXTURE_2D GL_TEXTURE_MAG_FILTER GL_LINEAR,
                    glTexImage2D GL_TEXTURE_2D GL_RGBA8 64 64 GL_RGBA GL_UNSIGNED_BYTE,
                    glGenerateMipmap GL_TEXTURE_2D, stbi_image_free,
                    glBindTexture GL_TEXTURE_2D 0] w)
               \<lparr>m_textureIDs :=
                  (m_textureIDs w)[nat (m_loadedTextures w) :=
                     (m_textureIDs w ! nat (m_loadedTextures w))\<lparr>ID := 1, tag := tg\<rparr>],
                m_loadedTextures := m_loadedTextures w + 1\<rparr>)"
  using assms
  by (simp add: CreateGLTexture_def CreateGLTexture_store_cases Let_def emit_fields emit_emit
      all_files_rgba_def registry_in_bounds_def)

lemma names_avoid_sentinel_rgba: "names_avoid_sentinel all_files_rgba"
  by (simp add: names_avoid_sentinel_def all_files_rgba_def)

subsection \<open>The texture uploads of start-up\<close>

lemma load_step:
  assumes "registry_in_bounds w" and "m_loadedTextures w < 16"
  shows "\<exists>w' es. discard (CreateGLTexture env filename tg) w = Inr w'
           \<and> calls w' = calls w @ es \<and> list_all is_texture_setup es
           \<and> length (filter is_texture_upload es) = (if loadable env filename then 1 else 0)
           \<and> registry_in_bounds w' \<and> m_loadedTextures w' \<le> m_loadedTextures w + 1
           \<and> m_pShaderManager w' = m_pShaderManager w"
proof (cases "image_on_disk env filename")
  case None
  with assms show ?thesis
    by (simp add: discard_def CreateGLTexture_def Let_def emit_fields loadable_def
        registry_in_bounds_def)
next
  case (Some img)
  with assms show ?thesis
    by (simp add: discard_def CreateGLTexture_def CreateGLTexture_store_cases Let_def emit_fields
        loadable_def registry_in_bounds_def)
qed

lemma BindGLTextures_from_no_upload:
  assumes "m_loadedTextures w \<le> 16" and "0 \<le> i"
  shows "\<exists>es. BindGLTextures_from i w = Inr (emit es w)
           \<and> list_all is_texture_setup es \<and> filter is_texture_upload es = []"
  using assms
proof (induction i w rule: BindGLTextures_from.induct)
  case (1 i w)
  show ?case
  proof (cases "i < m_loadedTextures w")
    case False
    then have "BindGLTextures_from i w = Inr (emit [] w)"
      by (subst BindGLTextures_from.simps) (simp add: emit_def)
    then show ?thesis by (intro exI [of _ "[]"]) simp
  next
    case True
    let ?step = "[glActiveTexture i, glBindTexture GL_TEXTURE_2D (ID (m_textureIDs w ! nat i))]"
    from True 1(2,3) have range: "0 \<le> i \<and> i < 16" by simp
    with 1 True obtain es where es: "BindGLTextures_from (i + 1) (emit ?step w) = Inr (emit es (emit ?step w))"
      "list_all is_texture_setup es" "filter is_texture_upload es = []"
      by (auto simp: emit_fields)
    with True range have "BindGLTextures_from i w = Inr (emit (?step @ es) w)"
      by (subst BindGLTextures_from.simps) (simp add: emit_emit)
    with es(2,3) show ?thesis by (intro exI [of _ "?step @ es"]) simp
  qed
qed

lemma LoadSceneTextures_uploads:
  assumes "registry_in_bounds w" and "m_loadedTextures w \<le> 10"
  shows "\<exists>w' loads. LoadSceneTextures env w = Inr w'
           \<and> calls w' = calls w @ loads \<and> list_all is_texture_setup loads
           \<and> length (filter is_texture_upload loads) = length (filter (loadable env) scene_texture_files)
           \<and> registry_in_bounds w' \<and> m_pShaderManager w' = m_pShaderManager w"
proof -
  from load_step [of w env "''textures/wood.jpg''" "''wood''"] assms
  obtain w1 e1 where s1: "discard (CreateGLTexture env ''textures/wood.jpg'' ''wood'') w = Inr w1"
    and c1: "calls w1 = calls w @ e1" "list_all is_texture_setup e1"
      "length (filter is_texture_upload e1) = (if loadable env ''textures/wood.jpg'' then 1 else 0)"
    and k1: "registry_in_bounds w1" "m_loadedTextures w1 \<le> m_loadedTextures w + 1"
      "m_pShaderManager w1 = m_pShaderManager w"
    by auto
  from load_step [of w1 env "''textures/white_wood.jpg''" "''whiteWood''"] k1 assms(2)
  obtain w2 e2 where s2: "discard (CreateGLTexture env ''textures/white_wood.jpg'' ''whiteWood'') w1 = Inr w2"
    and c2: "calls w2 = calls w1 @ e2" "list_all is_texture_setup e2"
      "length (filter is_texture_upload e2) = (if loadable env ''textures/white_wood.jpg'' then 1 else 0)"
    and k2: "registry_in_bounds w2" "m_loadedTextures w2 \<le> m_loadedTextures w + 2"
      "m_pShaderManager w2 = m_pShaderManager w"
    by auto
  from load_step [of w2 env "''textures/concrete.png''" "''concrete''"] k2 assms(2)
  obtain w3 e3 where s3: "discard (CreateGLTexture env ''textures/concrete.png'' ''concrete'') w2 = Inr w3"
    and c3: "calls w3 = calls w2 @ e3" "list_all is_texture_setup e3"
      "length (filter is_texture_upload e3) = (if loadable env ''textures/concrete.png'' then 1 else 0)"
    and k3: "registry_in_bounds w3" "m_loadedTextures w3 \<le> m_loadedTextures w + 3"
      "m_pShaderManager w3 = m_pShaderManager w"
    by auto
  from load_step [of w3 env "''textures/green.png''" "''green''"] k3 assms(2)
  obtain w4 e4 where s4: "discard (CreateGLTexture env ''textures/green.png'' ''green'') w3 = Inr w4"
    and c4: "calls w4 = calls w3 @ e4" "list_all is_texture_setup e4"
      "length (filter is_texture_upload e4) = (if loadable env ''textures/green.png'' then 1 else 0)"
    and k4: "registry_in_bounds w4" "m_loadedTextures w4 \<le> m_loadedTextures w + 4"
      "m_pShaderManager w4 = m_pShaderManager w"
    by auto
  from load_step [of w4 env "''textures/gray.png''" "''gray''"] k4 assms(2)
  obtain w5 e5 where s5: "discard (CreateGLTexture env ''textures/gray.png'' ''gray'') w4 = Inr w5"
    and c5: "calls w5 = calls w4 @ e5" "list_all is_texture_setup e5"
      "length (filter is_texture_upload e5) = (if loadable env ''textures/gray.png'' then 1 else 0)"
    and k5: "registry_in_bounds w5" "m_loadedTextures w5 \<le> m_loadedTextures w + 5"
      "m_pShaderManager w5 = m_pShaderManager w"
    by auto
  from load_step [of w5 env "''textures/black.png''" "''black''"] k5 assms(2)
  obtain w6 e6 where s6: "discard (CreateGLTexture env ''textures/black.png'' ''black'') w5 = Inr w6"
    and c6: "calls w6 = calls w5 @ e6" "list_all is_texture_setup e6"
      "length (filter is_texture_upload e6) = (if loadable env ''textures/black.png'' then 1 else 0)"
    and k6: "registry_in_bounds w6" "m_loadedTextures w6 \<le> m_loadedTextures w + 6"
      "m_pShaderManager w6 = m_pShaderManager w"
    by auto
  from BindGLTextures_from_no_upload [of w6 0] k6(1)
  obtain eb where b: "BindGLTextures w6 = Inr (emit eb w6)"
    and cb: "list_all is_texture_setup eb" "filter is_texture_upload eb = []"
    by (auto simp: BindGLTextures_def registry_in_bounds_def)
  let ?loads = "e1 @ e2 @ e3 @ e4 @ e5 @ e6 @ eb"
  have r: "LoadSceneTextures env w = Inr (emit eb w6)"
    by (simp add: LoadSceneTextures_def s1 s2 s3 s4 s5 s6 b)
  have l: "calls (emit eb w6) = calls w @ ?loads"
    by (simp add: emit_fields c1 c2 c3 c4 c5 c6)
  have a: "list_all is_texture_setup ?loads"
    by (simp add: c1 c2 c3 c4 c5 c6 cb)
  have n: "length (filter is_texture_upload ?loads) = length (filter (loadable env) scene_texture_files)"
    by (simp add: c1 c2 c3 c4 c5 c6 cb scene_texture_files_def)
  have k: "registry_in_bounds (emit eb w6)" "m_pShaderManager (emit eb w6) = m_pShaderManager w"
    using k6 by (simp_all add: registry_in_bounds_def emit_fields)
  from r l a n k show ?thesis by blast
qed

lemma PrepareScene_uploads:
  assumes "registry_in_bounds w" and "m_loadedTextures w \<le> 10" and "m_pShaderManager w \<noteq> nullptr"
  shows "\<exists>w' loads. PrepareScene env w = Inr w'
           \<and> calls w' = calls w @ loads @ [LoadPlaneMesh, LoadBoxMesh, LoadCylinderMesh] @ lighting_uploads
           \<and> list_all is_texture_setup loads
           \<and> length (filter is_texture_upload loads) = length (filter (loadable env) scene_texture_files)
           \<and> registry_in_bounds w'"
proof -
  from LoadSceneTextures_uploads [OF assms(1,2), of env] obtain v loads
    where v: "LoadSceneTextures env w = Inr v"
      and c: "calls v = calls w @ loads" "list_all is_texture_setup loads"
        "length (filter is_texture_upload loads) = length (filter (loadable env) scene_texture_files)"
      and k: "registry_in_bounds v" "m_pShaderManager v = m_pShaderManager w"
    by blast
  let ?w' = "emit ([LoadPlaneMesh, LoadBoxMesh, LoadCylinderMesh] @ lighting_uploads) v"
  from v k assms(3) have r: "PrepareScene env w = Inr ?w'"
    by (simp add: PrepareScene_def ext_def emit_emit emit_fields SetupSceneLights_emits)
  have l: "calls ?w' = calls w @ loads @ [LoadPlaneMesh, LoadBoxMesh, LoadCylinderMesh] @ lighting_uploads"
    by (simp add: emit_fields c(1))
  have b: "registry_in_bounds ?w'"
    using k(1) by (simp add: registry_in_bounds_def emit_fields)
  from r l c(2,3) b show ?thesis by blast
qed

lemma texture_setup_no_draw:
  assumes "list_all is_texture_setup es"
  shows "\<not> list_ex is_draw es"
  using assms by (induction es) (auto elim: is_texture_setup.elims)

lemma uploads_precede_draws_no_upload:
  assumes "\<not> list_ex is_texture_upload post"
  shows "uploads_precede_draws post"
  using assms by (induction post) auto

lemma uploads_precede_draws_append:
  assumes "\<not> list_ex is_draw pre" and "\<not> list_ex is_texture_upload post"
  shows "uploads_precede_draws (pre @ post)"
  using assms by (induction pre) (auto simp: uploads_precede_draws_no_upload)

lemma upload_after_draw:
  assumes "list_ex is_draw a" and "list_ex is_texture_upload r"
  shows "\<not> uploads_precede_draws (a @ r)"
  using assms by (induction a) auto

lemma ctor_facts:
  "registry_in_bounds (SceneManager_ctor p)" "m_loadedTextures (SceneManager_ctor p) = 0"
  "m_pShaderManager (SceneManager_ctor p) = p" "calls (SceneManager_ctor p) = []"
  by (simp_all add: SceneManager_ctor_def registry_in_bounds_def)

lemma all_files_rgb_loadable:
  "length (filter (loadable all_files_rgb) scene_texture_files) = 6"
  by (simp add: loadable_def all_files_rgb_def scene_texture_files_def)

section \<open>Claims of the specification\<close>

subsection \<open>The model matrix\<close>

text \<open>
  Claim C1. With a non-null shader manager, \<^verbatim>\<open>SetTransformations\<close> uploads to the uniform
  \<^verbatim>\<open>"model"\<close> the matrix
  \<^verbatim>\<open>translate(position) * Rz(radians(Z)) * Ry(radians(Y)) * Rx(radians(X)) * scale(scale)\<close>,
  the product taken in this order and nested to the left as C++ evaluates it, each angle
  passed through \<^verbatim>\<open>glm::radians\<close>. Apart from the entry of the method this upload is
  all the call does.
\<close>

theorem SetTransformations_model_matrix:
  assumes "m_pShaderManager w \<noteq> nullptr"
  shows "SetTransformations scaleXYZ XrotationDegrees YrotationDegrees ZrotationDegrees positionXYZ w =
         Inr (emit
           [call_SetTransformations scaleXYZ XrotationDegrees YrotationDegrees ZrotationDegrees positionXYZ,
            setMat4Value ''model''
              (mat4_mul
                (mat4_mul
                  (mat4_mul
                    (mat4_mul (glm_translate positionXYZ)
                              (glm_rotate (glm_radians ZrotationDegrees) (vec3 0 0 1)))
                    (glm_rotate (glm_radians YrotationDegrees) (vec3 0 1 0)))
                  (glm_rotate (glm_radians XrotationDegrees) (vec3 1 0 0)))
                (glm_scale scaleXYZ))] w)"
  using assms
  by (simp add: SetTransformations_emits transform_calls_def model_matrix_def)

theorem SetTransformations_model_matrix_witness:
  "m_pShaderManager fresh_scene \<noteq> nullptr \<and>
   SetTransformations (vec3 1.05 0.75 0.06) (- 90) 16 0 (vec3 (- 1.4) 2.87 (- 0.05)) fresh_scene =
     Inr (emit
       [call_SetTransformations (vec3 1.05 0.75 0.06) (- 90) 16 0 (vec3 (- 1.4) 2.87 (- 0.05)),
        setMat4Value ''model''
          (mat4_mul
            (mat4_mul
              (mat4_mul
                (mat4_mul (glm_translate (vec3 (- 1.4) 2.87 (- 0.05)))
                          (glm_rotate (glm_radians 0) (vec3 0 0 1)))
                (glm_rotate (glm_radians 16) (vec3 0 1 0)))
              (glm_rotate (glm_radians (- 90)) (vec3 1 0 0)))
            (glm_scale (vec3 1.05 0.75 0.06)))] fresh_scene)"
proof -
  have nn: "m_pShaderManager fresh_scene \<noteq> nullptr"
    by (simp add: fresh_scene_def SceneManager_ctor_def)
  from SetTransformations_model_matrix [OF nn] nn show ?thesis by blast
qed

text \<open>
  Claim C5, amended. The spec counts four matrices. The uploaded matrix is a product of
  five factors (one translation, three rotations, one scale) joined by four
  multiplications.
\<close>

theorem SetTransformations_five_factors:
  assumes "m_pShaderManager w \<noteq> nullptr"
  shows "\<exists>m. SetTransformations s rx ry rz p w =
               Inr (emit [call_SetTransformations s rx ry rz p, setMat4Value ''model'' m] w)
           \<and> factors m =
               [glm_translate p,
                glm_rotate (glm_radians rz) (vec3 0 0 1),
                glm_rotate (glm_radians ry) (vec3 0 1 0),
                glm_rotate (glm_radians rx) (vec3 1 0 0),
                glm_scale s]
           \<and> length (factors m) = 5
           \<and> multiplications m = 4"
  using assms
  by (intro exI [of _ "model_matrix s rx ry rz p"])
     (simp add: SetTransformations_emits transform_calls_def model_matrix_def)

theorem SetTransformations_five_factors_witness:
  "m_pShaderManager fresh_scene \<noteq> nullptr \<and>
   (\<exists>m. SetTransformations (vec3 0.7 1.1 0.35) 0 (- 13) 0 (vec3 1.5 2.92 0.7) fresh_scene =
          Inr (emit [call_SetTransformations (vec3 0.7 1.1 0.35) 0 (- 13) 0 (vec3 1.5 2.92 0.7),
                     setMat4Value ''model'' m] fresh_scene)
      \<and> factors m =
          [glm_translate (vec3 1.5 2.92 0.7),
           glm_rotate (glm_radians 0) (vec3 0 0 1),
           glm_rotate (glm_radians (- 13)) (vec3 0 1 0),
           glm_rotate (glm_radians 0) (vec3 1 0 0),
           glm_scale (vec3 0.7 1.1 0.35)]
      \<and> length (factors m) = 5
      \<and> multiplications m = 4)"
proof -
  have nn: "m_pShaderManager fresh_scene \<noteq> nullptr"
    by (simp add: fresh_scene_def SceneManager_ctor_def)
  from SetTransformations_five_factors [OF nn] nn show ?thesis by blast
qed

text \<open>The count of four fails on the ground plane of the scene, as on every other call.\<close>

theorem SetTransformations_four_factors_counterexample:
  "SetTransformations (vec3 50 1 50) 0 0 0 (vec3 0 (- 0.5) 0) fresh_scene =
     Inr (emit [call_SetTransformations (vec3 50 1 50) 0 0 0 (vec3 0 (- 0.5) 0),
                setMat4Value ''model'' (model_matrix (vec3 50 1 50) 0 0 0 (vec3 0 (- 0.5) 0))]
            fresh_scene)
   \<and> length (factors (model_matrix (vec3 50 1 50) 0 0 0 (vec3 0 (- 0.5) 0))) \<noteq> 4"
  by (simp add: SetTransformations_emits transform_calls_def model_matrix_def fresh_scene_def
      SceneManager_ctor_def emit_def)

subsection \<open>The texture registry\<close>

text \<open>
  Claim C2 says that \<^verbatim>\<open>m_loadedTextures\<close> stays within \<open>0..16\<close> and that every store of
  \<^verbatim>\<open>CreateGLTexture\<close> into \<^verbatim>\<open>m_textureIDs\<close> has an index below 16, also after more
  than sixteen successful loads. The header documents the array as holding up to 16
  entries and the slots as \<open>0..15\<close>, but \<^verbatim>\<open>CreateGLTexture\<close> never compares the counter
  with 16. \<^verbatim>\<open>PrepareScene\<close> loads six textures, so its third call makes the
  seventeenth successful load, whose store goes to index 16, past the end of the array.
  Up to that store the bounds hold, see \<open>reachable_in_bounds\<close>.
\<close>

theorem three_PrepareScene_calls_overflow:
  "run [PrepareScene all_files_rgb, PrepareScene all_files_rgb, PrepareScene all_files_rgb]
     fresh_scene = Inl (OutOfBounds 16)"
proof -
  from PrepareScene_rgb [of fresh_scene] fresh_scene_facts
  obtain v1 where s1: "PrepareScene all_files_rgb fresh_scene = Inr v1"
    and k1: "registry_in_bounds v1" "m_loadedTextures v1 = 6" "m_pShaderManager v1 \<noteq> nullptr"
    by auto
  from PrepareScene_rgb [of v1] k1
  obtain v2 where s2: "PrepareScene all_files_rgb v1 = Inr v2"
    and k2: "registry_in_bounds v2" "m_loadedTextures v2 = 12"
    by auto
  have s3: "PrepareScene all_files_rgb v2 = Inl (OutOfBounds 16)"
    by (simp add: PrepareScene_def LoadSceneTextures_rgb_overflow [OF k2])
  show ?thesis by (simp add: s1 s2 s3)
qed

text \<open>
  Claim C3. In a registry with \<open>0 \<le> m_loadedTextures \<le> 16\<close>, \<^verbatim>\<open>FindTextureSlot\<close>
  returns the smallest index below \<^verbatim>\<open>m_loadedTextures\<close> whose entry carries the tag, and
  \<open>-1\<close> when no such entry exists. The object it returns is the object it was given, and
  the result is the same in every object that has the same counter and the same entries
  below the counter: entries from \<^verbatim>\<open>m_loadedTextures\<close> on are not looked at.
\<close>

theorem FindTextureSlot_smallest_match:
  assumes "0 \<le> m_loadedTextures w" and "m_loadedTextures w \<le> 16"
  shows "\<exists>r. FindTextureSlot tg w = Inr (r, w)
    \<and> (if \<exists>i. 0 \<le> i \<and> i < m_loadedTextures w \<and> tag (m_textureIDs w ! nat i) = tg
       then 0 \<le> r \<and> r < m_loadedTextures w \<and> tag (m_textureIDs w ! nat r) = tg
            \<and> (\<forall>j. 0 \<le> j \<and> j < r \<longrightarrow> tag (m_textureIDs w ! nat j) \<noteq> tg)
       else r = - 1)
    \<and> (\<forall>w'. m_loadedTextures w' = m_loadedTextures w
            \<and> take (nat (m_loadedTextures w)) (m_textureIDs w') =
              take (nat (m_loadedTextures w)) (m_textureIDs w)
          \<longrightarrow> FindTextureSlot tg w' = Inr (r, w'))"
proof -
  from FindTextureSlot_from_result [of 0 w tg] assms
  obtain r where r: "FindTextureSlot_from 0 tg w = Inr (r, w)"
    and spec: "(r = - 1 \<and> (\<forall>j. 0 \<le> j \<and> j < m_loadedTextures w \<longrightarrow> tag (m_textureIDs w ! nat j) \<noteq> tg))
            \<or> (0 \<le> r \<and> r < m_loadedTextures w \<and> tag (m_textureIDs w ! nat r) = tg
                \<and> (\<forall>j. 0 \<le> j \<and> j < r \<longrightarrow> tag (m_textureIDs w ! nat j) \<noteq> tg))"
    by auto
  have a: "FindTextureSlot tg w = Inr (r, w)"
    using r by (simp add: FindTextureSlot_def)
  have b: "if \<exists>i. 0 \<le> i \<and> i < m_loadedTextures w \<and> tag (m_textureIDs w ! nat i) = tg
       then 0 \<le> r \<and> r < m_loadedTextures w \<and> tag (m_textureIDs w ! nat r) = tg
            \<and> (\<forall>j. 0 \<le> j \<and> j < r \<longrightarrow> tag (m_textureIDs w ! nat j) \<noteq> tg)
       else r = - 1"
    using spec by auto
  have c: "\<forall>w'. m_loadedTextures w' = m_loadedTextures w
            \<and> take (nat (m_loadedTextures w)) (m_textureIDs w') =
              take (nat (m_loadedTextures w)) (m_textureIDs w)
          \<longrightarrow> FindTextureSlot tg w' = Inr (r, w')"
    using FindTextureSlot_from_prefix [OF _ _ _ r] by (simp add: FindTextureSlot_def)
  from a b c show ?thesis by blast
qed

text \<open>Of two entries tagged \<^verbatim>\<open>gray\<close>, at 1 and 2, the lookup returns 1.\<close>

theorem FindTextureSlot_smallest_match_witness:
  "0 \<le> m_loadedTextures three_loaded \<and> m_loadedTextures three_loaded \<le> 16 \<and>
   FindTextureSlot ''gray'' three_loaded = Inr (1, three_loaded)"
proof -
  have h: "0 \<le> m_loadedTextures three_loaded" "m_loadedTextures three_loaded \<le> 16"
    by (simp_all add: three_loaded_def)
  from FindTextureSlot_smallest_match [OF h, of "''gray''"]
  obtain r where r: "FindTextureSlot ''gray'' three_loaded = Inr (r, three_loaded)"
    and spec: "if \<exists>i. 0 \<le> i \<and> i < m_loadedTextures three_loaded
                       \<and> tag (m_textureIDs three_loaded ! nat i) = ''gray''
       then 0 \<le> r \<and> r < m_loadedTextures three_loaded \<and> tag (m_textureIDs three_loaded ! nat r) = ''gray''
            \<and> (\<forall>j. 0 \<le> j \<and> j < r \<longrightarrow> tag (m_textureIDs three_loaded ! nat j) \<noteq> ''gray'')
       else r = - 1"
    by blast
  have ex: "\<exists>i. 0 \<le> i \<and> i < m_loadedTextures three_loaded
                       \<and> tag (m_textureIDs three_loaded ! nat i) = ''gray''"
    by (rule exI [of _ 1]) (simp add: three_loaded_def)
  with spec have r0: "0 \<le> r" and r3: "r < 3" and hit: "tag (m_textureIDs three_loaded ! nat r) = ''gray''"
    and first: "\<forall>j. 0 \<le> j \<and> j < r \<longrightarrow> tag (m_textureIDs three_loaded ! nat j) \<noteq> ''gray''"
    by (simp_all add: three_loaded_def)
  from r0 r3 have "r = 0 \<or> r = 1 \<or> r = 2" by arith
  moreover have "r \<noteq> 0" using hit by (auto simp: three_loaded_def)
  moreover have "r \<noteq> 2"
  proof
    assume "r = 2"
    from first have "0 \<le> (1::int) \<and> 1 < r \<longrightarrow> tag (m_textureIDs three_loaded ! nat 1) \<noteq> ''gray''"
      by blast
    with \<open>r = 2\<close> show False by (simp add: three_loaded_def)
  qed
  ultimately have "r = 1" by blast
  with r h show ?thesis by simp
qed

text \<open>
  Claim C4. \<^verbatim>\<open>CreateGLTexture\<close> returns false exactly when \<^verbatim>\<open>stbi_load\<close> yields no image
  or the image has neither 3 nor 4 channels. A false return leaves
  \<^verbatim>\<open>m_loadedTextures\<close> and \<^verbatim>\<open>m_textureIDs\<close> as they were; a true return adds one to
  \<^verbatim>\<open>m_loadedTextures\<close> and the entry at the old count carries the given tag. While there
  is room in the array the call returns.
\<close>

theorem CreateGLTexture_result:
  assumes "length (m_textureIDs w) = 16"
  shows "((\<exists>w'. CreateGLTexture env filename tg w = Inr (False, w')) \<longleftrightarrow>
            (image_on_disk env filename = None \<or>
             (\<exists>img. image_on_disk env filename = Some img
                    \<and> colorChannels img \<noteq> 3 \<and> colorChannels img \<noteq> 4)))
       \<and> (\<forall>w'. CreateGLTexture env filename tg w = Inr (False, w') \<longrightarrow>
              m_loadedTextures w' = m_loadedTextures w \<and> m_textureIDs w' = m_textureIDs w)
       \<and> (\<forall>w'. CreateGLTexture env filename tg w = Inr (True, w') \<longrightarrow>
              m_loadedTextures w' = m_loadedTextures w + 1
              \<and> tag (m_textureIDs w' ! nat (m_loadedTextures w)) = tg)
       \<and> (0 \<le> m_loadedTextures w \<and> m_loadedTextures w < 16 \<longrightarrow>
              (\<exists>b w'. CreateGLTexture env filename tg w = Inr (b, w')))"
proof (intro conjI allI impI)
  show "(\<exists>w'. CreateGLTexture env filename tg w = Inr (False, w')) \<longleftrightarrow>
            (image_on_disk env filename = None \<or>
             (\<exists>img. image_on_disk env filename = Some img
                    \<and> colorChannels img \<noteq> 3 \<and> colorChannels img \<noteq> 4))"
    by (rule CreateGLTexture_False_iff)
next
  fix w' assume "CreateGLTexture env filename tg w = Inr (False, w')"
  then show "m_loadedTextures w' = m_loadedTextures w" "m_textureIDs w' = m_textureIDs w"
    by (simp_all add: CreateGLTexture_False_frame)
next
  fix w' assume t: "CreateGLTexture env filename tg w = Inr (True, w')"
  from CreateGLTexture_True_effect [OF t]
  show "m_loadedTextures w' = m_loadedTextures w + 1" by simp
  from CreateGLTexture_True_effect [OF t] assms
  show "tag (m_textureIDs w' ! nat (m_loadedTextures w)) = tg" by auto
next
  assume "0 \<le> m_loadedTextures w \<and> m_loadedTextures w < 16"
  then show "\<exists>b w'. CreateGLTexture env filename tg w = Inr (b, w')"
    by (simp add: CreateGLTexture_returns)
qed

text \<open>The first load of the scene, once with the file present and once without.\<close>

theorem CreateGLTexture_result_witness:
  "length (m_textureIDs fresh_scene) = 16
   \<and> (\<exists>w'. CreateGLTexture all_files_rgb ''textures/wood.jpg'' ''wood'' fresh_scene = Inr (True, w')
          \<and> m_loadedTextures w' = 1 \<and> tag (m_textureIDs w' ! 0) = ''wood'')
   \<and> (\<exists>w'. CreateGLTexture no_files ''textures/wood.jpg'' ''wood'' fresh_scene = Inr (False, w')
          \<and> m_loadedTextures w' = 0 \<and> m_textureIDs w' = m_textureIDs fresh_scene)"
proof -
  have len: "length (m_textureIDs fresh_scene) = 16"
    and n: "m_loadedTextures fresh_scene = 0"
    by (simp_all add: fresh_scene_def SceneManager_ctor_def)
  note loads = CreateGLTexture_result
    [where w = fresh_scene and env = all_files_rgb and filename = "''textures/wood.jpg''"
       and tg = "''wood''", OF len]
  note fails = CreateGLTexture_result
    [where w = fresh_scene and env = no_files and filename = "''textures/wood.jpg''"
       and tg = "''wood''", OF len]
  have not_false:
    "\<not> (\<exists>w'. CreateGLTexture all_files_rgb ''textures/wood.jpg'' ''wood'' fresh_scene = Inr (False, w'))"
    using loads by (simp add: all_files_rgb_def)
  from loads n obtain b w'
    where r: "CreateGLTexture all_files_rgb ''textures/wood.jpg'' ''wood'' fresh_scene = Inr (b, w')"
    by auto
  with not_false have t: "CreateGLTexture all_files_rgb ''textures/wood.jpg'' ''wood'' fresh_scene = Inr (True, w')"
    by (cases b) auto
  with loads n have "m_loadedTextures w' = 1 \<and> tag (m_textureIDs w' ! 0) = ''wood''"
    by auto
  with t have first:
    "\<exists>w'. CreateGLTexture all_files_rgb ''textures/wood.jpg'' ''wood'' fresh_scene = Inr (True, w')
          \<and> m_loadedTextures w' = 1 \<and> tag (m_textureIDs w' ! 0) = ''wood''"
    by blast
  from fails obtain v
    where f: "CreateGLTexture no_files ''textures/wood.jpg'' ''wood'' fresh_scene = Inr (False, v)"
    by (auto simp: no_files_def)
  with fails n have "m_loadedTextures v = 0 \<and> m_textureIDs v = m_textureIDs fresh_scene"
    by auto
  with f have second:
    "\<exists>w'. CreateGLTexture no_files ''textures/wood.jpg'' ''wood'' fresh_scene = Inr (False, w')
          \<and> m_loadedTextures w' = 0 \<and> m_textureIDs w' = m_textureIDs fresh_scene"
    by blast
  from len first second show ?thesis by blast
qed

text \<open>
  Claim C9, amended. Provided \<^verbatim>\<open>glGenTextures\<close> never hands out the name
  \<^verbatim>\<open>(uint32_t)-1\<close>: in every state reached from the constructor by \<^verbatim>\<open>CreateGLTexture\<close>
  calls made while \<^verbatim>\<open>m_loadedTextures < 16\<close> and by \<^verbatim>\<open>DestroyGLTextures\<close> calls, the
  counter is within \<open>0..16\<close>, every entry from \<^verbatim>\<open>m_loadedTextures\<close> on holds the tag
  \<^verbatim>\<open>"/0"\<close> and the ID \<^verbatim>\<open>(uint32_t)-1\<close>, and every entry below it holds another ID.
\<close>

theorem registry_prefix_invariant:
  assumes "loads_and_destroys names_avoid_sentinel w"
  shows "registry_in_bounds w \<and> unused_slots_reset w \<and> loaded_slots_occupied w"
  using assms
proof (induction rule: loads_and_destroys.induct)
  case (ld_ctor p)
  show ?case
    by (simp add: registry_in_bounds_def unused_slots_reset_def loaded_slots_occupied_def
        SceneManager_ctor_def empty_slot_def list_all_length)
next
  case (ld_create w env filename tg b w')
  then show ?case
    using CreateGLTexture_in_bounds [of env filename tg w b w']
      CreateGLTexture_keeps_prefix [of env filename tg w b w']
    by simp
next
  case (ld_destroy w w')
  then show ?case
    using DestroyGLTextures_in_bounds [of w w'] DestroyGLTextures_keeps_prefix [of w w']
    by simp
qed

text \<open>A load, a destroy and another load: one occupied entry, fifteen reset ones.\<close>

theorem registry_prefix_invariant_witness:
  "loads_and_destroys names_avoid_sentinel reloaded_scene
   \<and> registry_in_bounds reloaded_scene \<and> unused_slots_reset reloaded_scene
   \<and> loaded_slots_occupied reloaded_scene
   \<and> m_loadedTextures reloaded_scene = 1
   \<and> m_textureIDs reloaded_scene ! 0 = \<lparr>tag = ''gray'', ID = 1\<rparr>"
proof -
  from load_rgba [of fresh_scene "''textures/wood.jpg''" "''wood''"] fresh_scene_facts
  obtain w1 where s1: "CreateGLTexture all_files_rgba ''textures/wood.jpg'' ''wood'' fresh_scene = Inr (True, w1)"
    by simp
  have r0: "loads_and_destroys names_avoid_sentinel fresh_scene"
    unfolding fresh_scene_def by (rule ld_ctor)
  have r1: "loads_and_destroys names_avoid_sentinel w1"
    using r0 _ names_avoid_sentinel_rgba s1 by (rule ld_create) (simp add: fresh_scene_facts)
  have b1: "registry_in_bounds w1"
    using CreateGLTexture_in_bounds [OF s1] fresh_scene_facts by simp
  from DestroyGLTextures_total [OF b1] obtain w2 where s2: "DestroyGLTextures w1 = Inr w2"
    by blast
  have r2: "loads_and_destroys names_avoid_sentinel w2"
    using r1 s2 by (rule ld_destroy)
  have b2: "registry_in_bounds w2" and n2: "m_loadedTextures w2 = 0"
    using DestroyGLTextures_in_bounds [OF s2 b1] s2
    by (auto simp: DestroyGLTextures_def split: sum.splits)
  from load_rgba [of w2 "''textures/gray.png''" "''gray''"] b2 n2
  obtain w3 where s3: "CreateGLTexture all_files_rgba ''textures/gray.png'' ''gray'' w2 = Inr (True, w3)"
    and n3: "m_loadedTextures w3 = 1"
    and e3: "m_textureIDs w3 = (m_textureIDs w2)[0 := (m_textureIDs w2 ! 0)\<lparr>ID := 1, tag := ''gray''\<rparr>]"
    by (simp add: emit_fields)
  have r3: "loads_and_destroys names_avoid_sentinel w3"
    using r2 _ names_avoid_sentinel_rgba s3 by (rule ld_create) (simp add: n2)
  have "reloaded_scene = w3"
    by (simp add: reloaded_scene_def discard_def s1 s2 s3)
  moreover have "m_textureIDs w3 ! 0 = \<lparr>tag = ''gray'', ID = 1\<rparr>"
    using e3 b2 by (simp add: registry_in_bounds_def)
  ultimately show ?thesis
    using registry_prefix_invariant [OF r3] r3 n3 by simp
qed

text \<open>
  Without the proviso the claim fails. \<^verbatim>\<open>DestroyGLTextures\<close> resets an entry only if its
  ID differs from \<^verbatim>\<open>(uint32_t)-1\<close>; an entry whose texture name is that very value keeps
  its tag, at an index that is no longer below the counter.
\<close>

theorem stale_slot_counterexample:
  "loads_and_destroys any_environment stale_slot_scene
   \<and> m_loadedTextures stale_slot_scene = 0
   \<and> tag (m_textureIDs stale_slot_scene ! 0) = ''wood''
   \<and> \<not> unused_slots_reset stale_slot_scene"
proof -
  let ?log = "[stbi_set_flip_vertically_on_load True, stbi_load ''textures/wood.jpg'',
                    cout_loaded ''textures/wood.jpg'' 64 64 4,
                    glGenTextures (- 1),
                    glBindTexture GL_TEXTURE_2D (- 1),
                    glTexParameteri GL_TEXTURE_2D GL_TEXTURE_WRAP_S GL_REPEAT,
                    glTexParameteri GL_TEXTURE_2D GL_TEXTURE_WRAP_T GL_REPEAT,
                    glTexParameteri GL_TEXTURE_2D GL_TEXTURE_MIN_FILTER GL_LINEAR_MIPMAP_LINEAR,
                    glTexParameteri GL_TEXTURE_2D GL_TEXTURE_MAG_FILTER GL_LINEAR,
                    glTexImage2D GL_TEXTURE_2D GL_RGBA8 64 64 GL_RGBA GL_UNSIGNED_BYTE,
                    glGenerateMipmap GL_TEXTURE_2D, stbi_image_free,
                    glBindTexture GL_TEXTURE_2D 0]"
  let ?w1 = "(emit ?log fresh_scene)
               \<lparr>m_textureIDs :=
                  (m_textureIDs fresh_scene)[0 := (m_textureIDs fresh_scene ! 0)\<lparr>ID := - 1, tag := ''wood''\<rparr>],
                m_loadedTextures := 1\<rparr>"
  have s1: "CreateGLTexture sentinel_names ''textures/wood.jpg'' ''wood'' fresh_scene = Inr (True, ?w1)"
    by (simp add: CreateGLTexture_def CreateGLTexture_store_cases Let_def emit_fields emit_emit
        sentinel_names_def fresh_scene_facts)
  have e0: "m_textureIDs ?w1 ! 0 = \<lparr>tag = ''wood'', ID = - 1\<rparr>"
    by (simp add: fresh_scene_def SceneManager_ctor_def empty_slot_def)
  have "DestroyGLTextures_from 1 ?w1 = Inr ?w1"
    by (subst DestroyGLTextures_from.simps) simp
  with e0 have "DestroyGLTextures_from 0 ?w1 = Inr ?w1"
    by (subst DestroyGLTextures_from.simps) simp
  then have s2: "DestroyGLTextures ?w1 = Inr (?w1\<lparr>m_loadedTextures := 0\<rparr>)"
    by (simp add: DestroyGLTextures_def)
  have eq: "stale_slot_scene = ?w1\<lparr>m_loadedTextures := 0\<rparr>"
    by (simp add: stale_slot_scene_def discard_def s1 s2)
  have r0: "loads_and_destroys any_environment fresh_scene"
    unfolding fresh_scene_def by (rule ld_ctor)
  have r1: "loads_and_destroys any_environment ?w1"
    using r0 _ _ s1 by (rule ld_create) (simp_all add: fresh_scene_facts any_environment_def)
  have r2: "loads_and_destroys any_environment stale_slot_scene"
    unfolding eq using r1 s2 by (rule ld_destroy)
  have len: "length (m_textureIDs stale_slot_scene) = 16"
    unfolding eq by (simp add: fresh_scene_def SceneManager_ctor_def)
  have t0: "tag (m_textureIDs stale_slot_scene ! 0) = ''wood''"
    unfolding eq using e0 by simp
  have n0: "m_loadedTextures stale_slot_scene = 0"
    unfolding eq by simp
  have "\<not> unused_slots_reset stale_slot_scene"
  proof
    assume "unused_slots_reset stale_slot_scene"
    then have "tag (m_textureIDs stale_slot_scene ! 0) = ''/0''"
      by (simp add: unused_slots_reset_nth [OF len] n0)
    with t0 show False by simp
  qed
  with r2 n0 t0 show ?thesis by simp
qed

text \<open>
  Claim C10. For a tag that no loaded entry carries, \<^verbatim>\<open>SetShaderTexture\<close> with a non-null
  shader manager sets \<^verbatim>\<open>bUseTexture\<close> to true, uploads the sampler slot \<open>-1\<close> and the UV
  scale, prints nothing, returns, and leaves the registry as it was.
\<close>

theorem SetShaderTexture_unknown_tag:
  assumes "m_pShaderManager w \<noteq> nullptr"
    and "registry_in_bounds w"
    and "tg \<notin> set (map tag (take (nat (m_loadedTextures w)) (m_textureIDs w)))"
  shows "SetShaderTexture tg scale w =
           Inr (emit [call_SetShaderTexture tg scale,
                      setIntValue ''bUseTexture'' 1,
                      setSampler2DValue ''objectTexture'' (- 1),
                      setVec2Value ''UVscale'' (vec2 scale scale)] w)
       \<and> (\<forall>w'. SetShaderTexture tg scale w = Inr w' \<longrightarrow>
             m_loadedTextures w' = m_loadedTextures w \<and> m_textureIDs w' = m_textureIDs w)"
proof -
  from assms(2) have b: "0 \<le> m_loadedTextures w" "m_loadedTextures w \<le> 16"
    and len: "length (m_textureIDs w) = 16"
    by (simp_all add: registry_in_bounds_def)
  have absent: "\<forall>j. 0 \<le> j \<and> j < m_loadedTextures w \<longrightarrow> tag (m_textureIDs w ! nat j) \<noteq> tg"
  proof (intro allI impI)
    fix j assume j: "0 \<le> j \<and> j < m_loadedTextures w"
    then have "nat j < length (take (nat (m_loadedTextures w)) (m_textureIDs w))"
      using b len by simp
    then have "take (nat (m_loadedTextures w)) (m_textureIDs w) ! nat j
               \<in> set (take (nat (m_loadedTextures w)) (m_textureIDs w))"
      by (rule nth_mem)
    moreover have "take (nat (m_loadedTextures w)) (m_textureIDs w) ! nat j = m_textureIDs w ! nat j"
      using j by simp
    ultimately show "tag (m_textureIDs w ! nat j) \<noteq> tg"
      using assms(3) by auto
  qed
  from FindTextureSlot_from_result [of 0 w tg] b absent
  have "FindTextureSlot_from 0 tg w = Inr (- 1, w)" by auto
  then have "slot_of tg w = - 1"
    by (simp add: slot_of_def FindTextureSlot_def)
  with assms(1) have "SetShaderTexture tg scale w =
           Inr (emit [call_SetShaderTexture tg scale,
                      setIntValue ''bUseTexture'' 1,
                      setSampler2DValue ''objectTexture'' (- 1),
                      setVec2Value ''UVscale'' (vec2 scale scale)] w)"
    by (simp add: SetShaderTexture_emits [OF b] texture_calls_def)
  then show ?thesis by (simp add: emit_fields)
qed

theorem SetShaderTexture_unknown_tag_witness:
  "m_pShaderManager three_loaded \<noteq> nullptr
   \<and> registry_in_bounds three_loaded
   \<and> ''green'' \<notin> set (map tag (take (nat (m_loadedTextures three_loaded)) (m_textureIDs three_loaded)))
   \<and> SetShaderTexture ''green'' 1 three_loaded =
           Inr (emit [call_SetShaderTexture ''green'' 1,
                      setIntValue ''bUseTexture'' 1,
                      setSampler2DValue ''objectTexture'' (- 1),
                      setVec2Value ''UVscale'' (vec2 1 1)] three_loaded)
   \<and> (\<exists>w'. SetShaderTexture ''green'' 1 three_loaded = Inr w'
         \<and> m_loadedTextures w' = 3
         \<and> m_textureIDs w' = m_textureIDs three_loaded)"
proof -
  have h1: "m_pShaderManager three_loaded \<noteq> nullptr"
    by (simp add: three_loaded_def)
  have h2: "registry_in_bounds three_loaded"
    by (simp add: three_loaded_def registry_in_bounds_def)
  have h3: "''green'' \<notin> set (map tag (take (nat (m_loadedTextures three_loaded)) (m_textureIDs three_loaded)))"
    by (simp add: three_loaded_def numeral_3_eq_3)
  have n: "m_loadedTextures three_loaded = 3"
    by (simp add: three_loaded_def)
  note T = SetShaderTexture_unknown_tag [OF h1 h2 h3, of 1]
  from T n have "\<exists>w'. SetShaderTexture ''green'' 1 three_loaded = Inr w'
         \<and> m_loadedTextures w' = 3
         \<and> m_textureIDs w' = m_textureIDs three_loaded"
    by auto
  with T h1 h2 h3 show ?thesis by blast
qed

subsection \<open>The scene\<close>

text \<open>
  Claim C6. \<^verbatim>\<open>RenderScene\<close> takes no argument and consults no environment. From every
  reachable state it returns and issues the same eight draws (plane, four boxes, two
  cylinders, box), each set up with the same hard-coded scale, rotation, position, tag
  and UV scale. From two reachable states with the same registry it issues the same
  calls altogether, provided the shader manager is null in both or in neither.
\<close>

theorem RenderScene_fixed_sequence:
  assumes "reachable w1" and "reachable w2"
    and "m_loadedTextures w1 = m_loadedTextures w2" and "m_textureIDs w1 = m_textureIDs w2"
  shows "\<exists>w1' w2'. RenderScene w1 = Inr w1' \<and> RenderScene w2 = Inr w2'
     \<and> filter is_draw (issued w1 w1') =
         [DrawPlaneMesh, DrawBoxMesh, DrawBoxMesh, DrawBoxMesh, DrawBoxMesh,
          DrawCylinderMesh, DrawCylinderMesh, DrawBoxMesh]
     \<and> filter is_scene_call (issued w1 w1') = fixed_scene
     \<and> filter is_scene_call (issued w2 w2') = filter is_scene_call (issued w1 w1')
     \<and> ((m_pShaderManager w1 = nullptr \<longleftrightarrow> m_pShaderManager w2 = nullptr)
          \<longrightarrow> issued w2 w2' = issued w1 w1')"
proof -
  from reachable_in_bounds [OF assms(1)]
  have b1: "0 \<le> m_loadedTextures w1" "m_loadedTextures w1 \<le> 16"
    by (simp_all add: registry_in_bounds_def)
  with assms(3) have b2: "0 \<le> m_loadedTextures w2" "m_loadedTextures w2 \<le> 16"
    by simp_all
  let ?w1' = "emit (RenderScene_calls w1) w1" and ?w2' = "emit (RenderScene_calls w2) w2"
  have r1: "RenderScene w1 = Inr ?w1'" by (rule RenderScene_emits [OF b1])
  have r2: "RenderScene w2 = Inr ?w2'" by (rule RenderScene_emits [OF b2])
  have same: "(m_pShaderManager w1 = nullptr \<longleftrightarrow> m_pShaderManager w2 = nullptr)
          \<longrightarrow> issued w2 ?w2' = issued w1 ?w1'"
    using RenderScene_calls_registry [OF b1, of w2] assms(3,4)
    by (auto simp: issued_emit)
  from r1 r2 same show ?thesis
    by (intro exI [of _ ?w1'] exI [of _ ?w2'])
       (simp add: issued_emit RenderScene_calls_scene RenderScene_calls_draws)
qed

theorem RenderScene_fixed_sequence_witness:
  "reachable fresh_scene \<and> reachable (SceneManager_ctor nullptr)
   \<and> m_loadedTextures fresh_scene = m_loadedTextures (SceneManager_ctor nullptr)
   \<and> m_textureIDs fresh_scene = m_textureIDs (SceneManager_ctor nullptr)
   \<and> (\<exists>w1' w2'. RenderScene fresh_scene = Inr w1' \<and> RenderScene (SceneManager_ctor nullptr) = Inr w2'
     \<and> filter is_draw (issued fresh_scene w1') =
         [DrawPlaneMesh, DrawBoxMesh, DrawBoxMesh, DrawBoxMesh, DrawBoxMesh,
          DrawCylinderMesh, DrawCylinderMesh, DrawBoxMesh]
     \<and> filter is_scene_call (issued fresh_scene w1') = fixed_scene
     \<and> filter is_scene_call (issued (SceneManager_ctor nullptr) w2') =
         filter is_scene_call (issued fresh_scene w1')
     \<and> ((m_pShaderManager fresh_scene = nullptr \<longleftrightarrow> m_pShaderManager (SceneManager_ctor nullptr) = nullptr)
          \<longrightarrow> issued (SceneManager_ctor nullptr) w2' = issued fresh_scene w1'))"
proof -
  have h1: "reachable fresh_scene"
    unfolding fresh_scene_def by (rule reachable.ctor)
  have h2: "reachable (SceneManager_ctor nullptr)"
    by (rule reachable.ctor)
  have h3: "m_loadedTextures fresh_scene = m_loadedTextures (SceneManager_ctor nullptr)"
    and h4: "m_textureIDs fresh_scene = m_textureIDs (SceneManager_ctor nullptr)"
    by (simp_all add: fresh_scene_def SceneManager_ctor_def)
  show ?thesis
    by (intro conjI h1 h2 h3 h4 RenderScene_fixed_sequence [OF h1 h2 h3 h4])
qed

text \<open>
  Claim C7, amended. With a non-null shader manager every draw of \<^verbatim>\<open>RenderScene\<close> is
  preceded, since the previous draw, by the upload of the model matrix and of the three
  texture uniforms (\<^verbatim>\<open>bUseTexture\<close>, \<^verbatim>\<open>objectTexture\<close>, \<^verbatim>\<open>UVscale\<close>).
  \<^verbatim>\<open>RenderScene\<close> uploads no lighting constant: these are uploaded once per
  \<^verbatim>\<open>PrepareScene\<close>, as its last step, after the textures and the meshes.
\<close>

theorem RenderScene_uploads_per_draw:
  assumes "reachable w" and "m_pShaderManager w \<noteq> nullptr"
  shows "(\<exists>w'. RenderScene w = Inr w')
     \<and> length (filter is_draw (issued_by RenderScene w)) = 8
     \<and> per_draw has_model_and_texture_uploads (issued_by RenderScene w) []
     \<and> \<not> list_ex is_lighting_upload (issued_by RenderScene w)
     \<and> (\<forall>env v. PrepareScene env w = Inr v \<longrightarrow>
           (\<exists>loads. issued w v = loads @ [LoadPlaneMesh, LoadBoxMesh, LoadCylinderMesh] @ lighting_uploads
                    \<and> list_all is_texture_setup loads))
     \<and> list_all is_lighting_upload lighting_uploads"
proof -
  from reachable_in_bounds [OF assms(1)]
  have b: "0 \<le> m_loadedTextures w" "m_loadedTextures w \<le> 16"
    by (simp_all add: registry_in_bounds_def)
  have r: "RenderScene w = Inr (emit (RenderScene_calls w) w)"
    by (rule RenderScene_emits [OF b])
  have i: "issued_by RenderScene w = RenderScene_calls w"
    by (rule issued_by_RenderScene [OF b])
  have p: "\<forall>env v. PrepareScene env w = Inr v \<longrightarrow>
           (\<exists>loads. issued w v = loads @ [LoadPlaneMesh, LoadBoxMesh, LoadCylinderMesh] @ lighting_uploads
                    \<and> list_all is_texture_setup loads)"
    using PrepareScene_log by blast
  show ?thesis
    unfolding i
    by (intro conjI p lighting_uploads_all RenderScene_calls_eight_draws
        RenderScene_calls_no_lighting RenderScene_calls_per_draw_uploads [OF assms(2)])
       (simp add: r)
qed

theorem RenderScene_uploads_per_draw_witness:
  "reachable fresh_scene \<and> m_pShaderManager fresh_scene \<noteq> nullptr
   \<and> (\<exists>w'. RenderScene fresh_scene = Inr w')
   \<and> length (filter is_draw (issued_by RenderScene fresh_scene)) = 8
   \<and> per_draw has_model_and_texture_uploads (issued_by RenderScene fresh_scene) []
   \<and> \<not> list_ex is_lighting_upload (issued_by RenderScene fresh_scene)
   \<and> (\<exists>v loads. PrepareScene all_files_rgb fresh_scene = Inr v
         \<and> issued fresh_scene v = loads @ [LoadPlaneMesh, LoadBoxMesh, LoadCylinderMesh] @ lighting_uploads
         \<and> list_all is_texture_setup loads)
   \<and> list_all is_lighting_upload lighting_uploads"
proof -
  have h1: "reachable fresh_scene"
    unfolding fresh_scene_def by (rule reachable.ctor)
  have h2: "m_pShaderManager fresh_scene \<noteq> nullptr"
    by (simp add: fresh_scene_def SceneManager_ctor_def)
  note T = RenderScene_uploads_per_draw [OF h1 h2]
  from PrepareScene_rgb [of fresh_scene] fresh_scene_facts
  obtain v where v: "PrepareScene all_files_rgb fresh_scene = Inr v"
    by auto
  with T have p: "\<exists>v loads. PrepareScene all_files_rgb fresh_scene = Inr v
         \<and> issued fresh_scene v = loads @ [LoadPlaneMesh, LoadBoxMesh, LoadCylinderMesh] @ lighting_uploads
         \<and> list_all is_texture_setup loads"
    by blast
  from T h1 h2 p show ?thesis by blast
qed

text \<open>
  As the spec states it, with the lighting constants among the uploads of each draw, the
  claim fails: no draw of a frame has a lighting upload before it.
\<close>

theorem RenderScene_lighting_per_draw_counterexample:
  "length (filter is_draw (issued_by RenderScene fresh_scene)) = 8
   \<and> \<not> per_draw has_model_texture_and_lighting_uploads (issued_by RenderScene fresh_scene) []"
proof -
  have b: "0 \<le> m_loadedTextures fresh_scene" "m_loadedTextures fresh_scene \<le> 16"
    by (simp_all add: fresh_scene_def SceneManager_ctor_def)
  have i: "issued_by RenderScene fresh_scene = RenderScene_calls fresh_scene"
    by (rule issued_by_RenderScene [OF b])
  have nn: "m_pShaderManager fresh_scene \<noteq> nullptr"
    by (simp add: fresh_scene_def SceneManager_ctor_def)
  have "\<not> per_draw has_model_texture_and_lighting_uploads (RenderScene_calls fresh_scene) []"
    using nn
    by (simp add: RenderScene_calls_def transform_calls_def texture_calls_def
        has_model_texture_and_lighting_uploads_def has_model_and_texture_uploads_def)
  then show ?thesis
    unfolding i by (simp add: RenderScene_calls_eight_draws)
qed

text \<open>
  Claim C8, amended. When \<^verbatim>\<open>PrepareScene\<close> is the first call on an object constructed
  with a non-null shader manager and only frames follow, the run returns and its whole
  log is in the order texture upload, uniform upload, draw: first the calls of
  \<^verbatim>\<open>CreateGLTexture\<close> and \<^verbatim>\<open>BindGLTextures\<close>, with one texture upload for each of the
  six scene files that decodes to 3 or 4 channels, then the meshes and the lighting
  uniforms, then the frames, with eight draws each and no texture upload, where every
  draw has a \<^verbatim>\<open>SetTransformations\<close> call and a \<^verbatim>\<open>SetShaderTexture\<close> call between the
  previous draw and itself. No texture upload comes after a draw.
\<close>

theorem uploads_before_draws:
  assumes "p \<noteq> nullptr"
  shows "\<exists>w' loads post.
           run (PrepareScene env # replicate n RenderScene) (SceneManager_ctor p) = Inr w'
         \<and> calls w' = loads @ [LoadPlaneMesh, LoadBoxMesh, LoadCylinderMesh] @ lighting_uploads @ post
         \<and> list_all is_texture_setup loads
         \<and> length (filter is_texture_upload loads) = length (filter (loadable env) scene_texture_files)
         \<and> \<not> list_ex is_texture_upload post
         \<and> length (filter is_draw post) = 8 * n
         \<and> per_draw has_transform_and_texture_call post []
         \<and> uploads_precede_draws (calls w')"
proof -
  from PrepareScene_uploads [of "SceneManager_ctor p" env] assms
  obtain v loads where v: "PrepareScene env (SceneManager_ctor p) = Inr v"
    and cv: "calls v = loads @ [LoadPlaneMesh, LoadBoxMesh, LoadCylinderMesh] @ lighting_uploads"
    and loads: "list_all is_texture_setup loads"
      "length (filter is_texture_upload loads) = length (filter (loadable env) scene_texture_files)"
    and bv: "registry_in_bounds v"
    by (auto simp: ctor_facts)
  from frames_total [OF bv, of n] obtain w' where frames: "run (replicate n RenderScene) v = Inr w'"
    by blast
  from frames_log [OF bv frames] obtain post where post: "w' = emit post v"
    "\<not> list_ex is_texture_upload post" "length (filter is_draw post) = 8 * n"
    "per_draw has_transform_and_texture_call post []"
    by blast
  have r: "run (PrepareScene env # replicate n RenderScene) (SceneManager_ctor p) = Inr w'"
    by (simp add: v frames)
  have c: "calls w' = loads @ [LoadPlaneMesh, LoadBoxMesh, LoadCylinderMesh] @ lighting_uploads @ post"
    by (simp add: post(1) emit_fields cv)
  have "\<not> list_ex is_draw (loads @ [LoadPlaneMesh, LoadBoxMesh, LoadCylinderMesh] @ lighting_uploads)"
    using texture_setup_no_draw [OF loads(1)] by (simp add: lighting_uploads_def)
  from uploads_precede_draws_append [OF this post(2)]
  have u: "uploads_precede_draws (calls w')"
    by (simp add: c)
  from r c loads post(2,3,4) u show ?thesis by blast
qed

text \<open>Start-up with all six files present, and two frames: six uploads, then sixteen draws.\<close>

theorem uploads_before_draws_witness:
  "ShaderManager_at 0 \<noteq> nullptr
   \<and> (\<exists>w' loads post.
           run (PrepareScene all_files_rgb # replicate 2 RenderScene) (SceneManager_ctor (ShaderManager_at 0)) = Inr w'
         \<and> calls w' = loads @ [LoadPlaneMesh, LoadBoxMesh, LoadCylinderMesh] @ lighting_uploads @ post
         \<and> list_all is_texture_setup loads
         \<and> length (filter is_texture_upload loads) = 6
         \<and> \<not> list_ex is_texture_upload post
         \<and> length (filter is_draw post) = 16
         \<and> per_draw has_transform_and_texture_call post []
         \<and> uploads_precede_draws (calls w'))"
proof -
  have nn: "ShaderManager_at 0 \<noteq> nullptr" by simp
  from uploads_before_draws [OF nn, of all_files_rgb 2] nn show ?thesis
    by (simp add: all_files_rgb_loadable)
qed

text \<open>
  The class does not enforce that order. A frame rendered before \<^verbatim>\<open>PrepareScene\<close> puts
  eight draws in front of the six texture uploads, so the claim as the spec states it,
  for every draw ever issued, fails.
\<close>

theorem draws_before_uploads_counterexample:
  "length (filter is_draw
      (issued_by (run [RenderScene, PrepareScene all_files_rgb, RenderScene]) fresh_scene)) = 16
   \<and> length (filter is_texture_upload
      (issued_by (run [RenderScene, PrepareScene all_files_rgb, RenderScene]) fresh_scene)) = 6
   \<and> \<not> uploads_precede_draws
      (issued_by (run [RenderScene, PrepareScene all_files_rgb, RenderScene]) fresh_scene)"
proof -
  let ?R0 = "RenderScene_calls fresh_scene"
  let ?v0 = "emit ?R0 fresh_scene"
  have b0: "0 \<le> m_loadedTextures fresh_scene" "m_loadedTextures fresh_scene \<le> 16"
    using fresh_scene_facts by simp_all
  have s0: "RenderScene fresh_scene = Inr ?v0"
    by (rule RenderScene_emits [OF b0])
  have c0: "calls fresh_scene = []"
    by (simp add: fresh_scene_def SceneManager_ctor_def)
  from PrepareScene_uploads [of ?v0 all_files_rgb] fresh_scene_facts
  obtain v1 loads where s1: "PrepareScene all_files_rgb ?v0 = Inr v1"
    and c1: "calls v1 = calls ?v0 @ loads @ [LoadPlaneMesh, LoadBoxMesh, LoadCylinderMesh] @ lighting_uploads"
    and loads: "list_all is_texture_setup loads" "length (filter is_texture_upload loads) = 6"
    and b1: "registry_in_bounds v1"
    by (auto simp: emit_fields registry_in_bounds_def all_files_rgb_loadable)
  let ?R1 = "RenderScene_calls v1"
  from b1 have s2: "RenderScene v1 = Inr (emit ?R1 v1)"
    by (intro RenderScene_emits) (simp_all add: registry_in_bounds_def)
  let ?rest = "loads @ [LoadPlaneMesh, LoadBoxMesh, LoadCylinderMesh] @ lighting_uploads @ ?R1"
  have log: "issued_by (run [RenderScene, PrepareScene all_files_rgb, RenderScene]) fresh_scene
               = ?R0 @ ?rest"
    by (simp add: issued_by_def issued_def s0 s1 s2 emit_fields c1 c0)
  have no_draw: "filter is_draw loads = []"
    using texture_setup_no_draw [OF loads(1)] by (simp add: list_ex_iff filter_empty_conv)
  have draws: "length (filter is_draw (?R0 @ ?rest)) = 16"
    by (simp add: RenderScene_calls_eight_draws no_draw lighting_uploads_def)
  have no_up: "filter is_texture_upload ?R0 = []" "filter is_texture_upload ?R1 = []"
    using RenderScene_calls_no_texture_upload [of fresh_scene] RenderScene_calls_no_texture_upload [of v1]
    by (simp_all add: list_ex_iff filter_empty_conv)
  have ups: "length (filter is_texture_upload (?R0 @ ?rest)) = 6"
    by (simp add: no_up loads(2) lighting_uploads_def)
  have "list_ex is_draw ?R0"
    using RenderScene_calls_draws [of fresh_scene] by (auto simp: list_ex_iff filter_empty_conv dest: filter_eq_ConsD)
  moreover have "list_ex is_texture_upload ?rest"
  proof -
    from loads(2) have "filter is_texture_upload loads \<noteq> []" by auto
    then show ?thesis by (auto simp: list_ex_iff filter_empty_conv)
  qed
  ultimately have "\<not> uploads_precede_draws (?R0 @ ?rest)"
    by (rule upload_after_draw)
  with draws ups show ?thesis
    unfolding log by simp
qed

end
